theory Spec2Isabelle
  imports Complex_Main
begin

section \<open>Vectors\<close>

text \<open>
  The source computes with \<^verbatim>\<open>double\<close>; the embedding computes with real numbers, so
  rounding and overflow of the arithmetic are not modelled.  ROOT's \<^verbatim>\<open>XYVector\<close>,
  \<^verbatim>\<open>XYZVector\<close> and \<^verbatim>\<open>XYZPoint\<close> are records of coordinates; a point plus a
  vector is a point, component by component.
\<close>

datatype XYVector = XYVector (x2: real) (y2: real)

datatype XYZVector = XYZVector (X: real) (Y: real) (Z: real)

type_synonym XYZPoint = XYZVector

definition SetX :: "XYZVector \<Rightarrow> real \<Rightarrow> XYZVector" where
  "SetX v a = XYZVector a (Y v) (Z v)"

definition SetY :: "XYZVector \<Rightarrow> real \<Rightarrow> XYZVector" where
  "SetY v a = XYZVector (X v) a (Z v)"

definition SetZ :: "XYZVector \<Rightarrow> real \<Rightarrow> XYZVector" where
  "SetZ v a = XYZVector (X v) (Y v) a"

definition vplus :: "XYZVector \<Rightarrow> XYZVector \<Rightarrow> XYZVector" where
  "vplus a b = XYZVector (X a + X b) (Y a + Y b) (Z a + Z b)"

definition vminus :: "XYZVector \<Rightarrow> XYZVector \<Rightarrow> XYZVector" where
  "vminus a b = XYZVector (X a - X b) (Y a - Y b) (Z a - Z b)"

definition vdiv :: "XYZVector \<Rightarrow> real \<Rightarrow> XYZVector" where
  "vdiv a d = XYZVector (X a / d) (Y a / d) (Z a / d)"

text \<open>
  \<^verbatim>\<open>std::numeric_limits<double>::max()\<close> and \<^verbatim>\<open>lowest()\<close>: the largest finite
  double and its negation.
\<close>

definition DBL_MAX :: real where
  "DBL_MAX = 2 ^ 1024 - 2 ^ 971"

definition DBL_LOWEST :: real where
  "DBL_LOWEST = - DBL_MAX"

section \<open>The configuration reader\<close>

text \<open>
  Modelled from the spec: the configuration classes (\<^verbatim>\<open>Configuration\<close>,
  \<^verbatim>\<open>ConfigReader\<close> and the exceptions of \<^verbatim>\<open>core/config\<close>) are not among the
  sources.  The spec (section 6) describes a collaborator with typed key lookup:
  \<^verbatim>\<open>get<T>(key)\<close> fails when the key is absent or its value has another schema,
  \<^verbatim>\<open>get<T>(key, default)\<close> returns the default when the key is absent.  The value
  schemas are an unsigned-integer pair, a 2-component vector, a 3-component vector, a
  scalar and a string.  A section is its name and its keys in the order they were set;
  the first entry of a key is the one a lookup finds.
\<close>

datatype ConfigValue =
    VDouble real
  | VUIntPair nat nat
  | VXY XYVector
  | VXYZ XYZVector
  | VString string

record Configuration =
  cfg_name :: string
  cfg_entries :: "(string \<times> ConfigValue) list"

text \<open>
  The exceptions, each a \<^verbatim>\<open>ConfigurationError\<close>: a required key is absent
  (the spec's MissingRequiredKey), a value has the wrong schema (SchemaMismatch), a value
  violates a constraint (InvalidValue, and InvalidEnumValue for the key
  \<^verbatim>\<open>location\<close>: the source throws the one class \<^verbatim>\<open>InvalidValueError\<close> with the key
  and a reason).
\<close>

datatype ConfigurationError =
    MissingKeyError string
  | InvalidKeyError string
  | InvalidValueError string string

fun as_double :: "ConfigValue \<Rightarrow> real option" where
  "as_double (VDouble d) = Some d"
| "as_double _ = None"

fun as_uint_pair :: "ConfigValue \<Rightarrow> (nat \<times> nat) option" where
  "as_uint_pair (VUIntPair a b) = Some (a, b)"
| "as_uint_pair _ = None"

fun as_XYVector :: "ConfigValue \<Rightarrow> XYVector option" where
  "as_XYVector (VXY v) = Some v"
| "as_XYVector _ = None"

fun as_XYZVector :: "ConfigValue \<Rightarrow> XYZVector option" where
  "as_XYZVector (VXYZ v) = Some v"
| "as_XYZVector _ = None"

fun as_string :: "ConfigValue \<Rightarrow> string option" where
  "as_string (VString s) = Some s"
| "as_string _ = None"

definition get :: "(ConfigValue \<Rightarrow> 'a option) \<Rightarrow> Configuration \<Rightarrow> string \<Rightarrow> ConfigurationError + 'a" where
  "get as config key =
     (case map_of (cfg_entries config) key of
        None \<Rightarrow> Inl (MissingKeyError key)
      | Some v \<Rightarrow> (case as v of None \<Rightarrow> Inl (InvalidKeyError key) | Some a \<Rightarrow> Inr a))"

definition get_or :: "(ConfigValue \<Rightarrow> 'a option) \<Rightarrow> Configuration \<Rightarrow> string \<Rightarrow> 'a \<Rightarrow> ConfigurationError + 'a" where
  "get_or as config key dflt =
     (case map_of (cfg_entries config) key of
        None \<Rightarrow> Inr dflt
      | Some v \<Rightarrow> (case as v of None \<Rightarrow> Inl (InvalidKeyError key) | Some a \<Rightarrow> Inr a))"

definition getName :: "Configuration \<Rightarrow> string" where
  "getName config = cfg_name config"

text \<open>
  Modelled from the spec: \<^verbatim>\<open>Configuration::merge\<close> is not among the sources.  The
  spec (section 4.4) has the merged section formed with later sections overriding
  earlier keys on conflict: the keys of the section merged in shadow the keys already
  there.
\<close>

definition merge :: "Configuration \<Rightarrow> Configuration \<Rightarrow> Configuration" where
  "merge config other = config\<lparr>cfg_entries := cfg_entries other @ cfg_entries config\<rparr>"

text \<open>
  Modelled from the spec: the reader holds one header section and all sections, named
  and unnamed, in declaration order; \<^verbatim>\<open>getConfigurations(name)\<close> gives the sections
  of that name in that order.
\<close>

record ConfigReader =
  header_config :: Configuration
  conf_array :: "Configuration list"

definition getHeaderConfiguration :: "ConfigReader \<Rightarrow> Configuration" where
  "getHeaderConfiguration reader = header_config reader"

definition reader_getConfigurations :: "ConfigReader \<Rightarrow> Configuration list" where
  "reader_getConfigurations reader = conf_array reader"

definition reader_getConfigurations_named :: "ConfigReader \<Rightarrow> string \<Rightarrow> Configuration list" where
  "reader_getConfigurations_named reader n = filter (\<lambda>c. cfg_name c = n) (conf_array reader)"

text \<open>What a throwing statement followed by the rest of the function does.\<close>

definition bindE :: "'e + 'a \<Rightarrow> ('a \<Rightarrow> 'e + 'b) \<Rightarrow> 'e + 'b" where
  "bindE r f = (case r of Inl e \<Rightarrow> Inl e | Inr a \<Rightarrow> f a)"

text \<open>
  \<^verbatim>\<open>::tolower\<close> in the C locale: the 26 upper-case letters go to their lower-case
  letters, every other character stays; and \<^verbatim>\<open>std::transform\<close> of it over a string.
\<close>

definition tolower :: "char \<Rightarrow> char" where
  "tolower c =
     (case map_of (zip ''ABCDEFGHIJKLMNOPQRSTUVWXYZ'' ''abcdefghijklmnopqrstuvwxyz'') c of
        Some l \<Rightarrow> l
      | None \<Rightarrow> c)"

definition lowercase :: "string \<Rightarrow> string" where
  "lowercase s = map tolower s"

section \<open>The detector model\<close>

text \<open>
  Modelled from the spec: \<^verbatim>\<open>DetectorModel.hpp\<close>, which declares the fields, the
  setters and getters and the class \<^verbatim>\<open>SupportLayer\<close>, is not among the sources.  The
  fields are those of the spec's data model (section 3).  A name cannot end in an
  underscore here, so the field \<^verbatim>\<open>size_\<close> of a layer is \<open>layer_size\<close> (and so on for
  \<^verbatim>\<open>offset_\<close>, \<^verbatim>\<open>location_\<close>, \<^verbatim>\<open>center_\<close>), and the field
  \<^verbatim>\<open>support_layers_\<close> of the model is \<open>m_support_layers\<close> (and so on for
  \<^verbatim>\<open>reader_\<close>, \<^verbatim>\<open>type_\<close>).  The location of a layer is a string in the source.
\<close>

record SupportLayer =
  layer_center :: XYZPoint
  layer_size :: XYZVector
  layer_material :: string
  layer_offset :: XYZVector
  layer_hole_size :: XYVector
  layer_hole_offset :: XYVector
  layer_location :: string

record DetectorModel =
  m_type :: string
  m_reader :: ConfigReader
  m_number_of_pixels :: "nat \<times> nat"
  m_pixel_size :: XYVector
  m_sensor_thickness :: real
  m_sensor_excess_top :: real
  m_sensor_excess_bottom :: real
  m_sensor_excess_left :: real
  m_sensor_excess_right :: real
  m_implant_size :: XYZVector
  m_implant_material :: string
  m_implant_offset :: XYVector
  m_chip_thickness :: real
  m_support_layers :: "SupportLayer list"

text \<open>
  The getters of the base geometry are virtual functions of the absent header.  What
  they compute from a model is a parameter of the embedding: the centre of the model, of
  the sensor and of the chip, and the x and y extent of the sensor and of the chip.
  Modelled from the spec: the z extent of the sensor is the sensor thickness and the z
  extent of the chip is the chip thickness (section 4.2 starts the stacking from
  \<^verbatim>\<open>sensorThickness\<close> and \<^verbatim>\<open>chipThickness\<close> where the source reads
  \<^verbatim>\<open>getSensorSize().z()\<close> and \<^verbatim>\<open>getChipSize().z()\<close>).
\<close>

record Getters =
  getCenter :: "DetectorModel \<Rightarrow> XYZPoint"
  getSensorCenter :: "DetectorModel \<Rightarrow> XYZPoint"
  getChipCenter :: "DetectorModel \<Rightarrow> XYZPoint"
  sensorSizeXY :: "DetectorModel \<Rightarrow> XYVector"
  chipSizeXY :: "DetectorModel \<Rightarrow> XYVector"

definition getSensorSize :: "Getters \<Rightarrow> DetectorModel \<Rightarrow> XYZVector" where
  "getSensorSize g m = XYZVector (x2 (sensorSizeXY g m)) (y2 (sensorSizeXY g m)) (m_sensor_thickness m)"

definition getChipSize :: "Getters \<Rightarrow> DetectorModel \<Rightarrow> XYZVector" where
  "getChipSize g m = XYZVector (x2 (chipSizeXY g m)) (y2 (chipSizeXY g m)) (m_chip_thickness m)"

text \<open>Modelled from the spec: each setter stores its field, each getter reads it.\<close>

definition setNPixels :: "nat \<times> nat \<Rightarrow> DetectorModel \<Rightarrow> DetectorModel" where
  "setNPixels v m = m\<lparr>m_number_of_pixels := v\<rparr>"

definition setPixelSize :: "XYVector \<Rightarrow> DetectorModel \<Rightarrow> DetectorModel" where
  "setPixelSize v m = m\<lparr>m_pixel_size := v\<rparr>"

definition setSensorThickness :: "real \<Rightarrow> DetectorModel \<Rightarrow> DetectorModel" where
  "setSensorThickness v m = m\<lparr>m_sensor_thickness := v\<rparr>"

definition setSensorExcessTop :: "real \<Rightarrow> DetectorModel \<Rightarrow> DetectorModel" where
  "setSensorExcessTop v m = m\<lparr>m_sensor_excess_top := v\<rparr>"

definition setSensorExcessBottom :: "real \<Rightarrow> DetectorModel \<Rightarrow> DetectorModel" where
  "setSensorExcessBottom v m = m\<lparr>m_sensor_excess_bottom := v\<rparr>"

definition setSensorExcessLeft :: "real \<Rightarrow> DetectorModel \<Rightarrow> DetectorModel" where
  "setSensorExcessLeft v m = m\<lparr>m_sensor_excess_left := v\<rparr>"

definition setSensorExcessRight :: "real \<Rightarrow> DetectorModel \<Rightarrow> DetectorModel" where
  "setSensorExcessRight v m = m\<lparr>m_sensor_excess_right := v\<rparr>"

definition getSensorExcessTop :: "DetectorModel \<Rightarrow> real" where
  "getSensorExcessTop m = m_sensor_excess_top m"

definition getSensorExcessBottom :: "DetectorModel \<Rightarrow> real" where
  "getSensorExcessBottom m = m_sensor_excess_bottom m"

definition getSensorExcessLeft :: "DetectorModel \<Rightarrow> real" where
  "getSensorExcessLeft m = m_sensor_excess_left m"

definition getSensorExcessRight :: "DetectorModel \<Rightarrow> real" where
  "getSensorExcessRight m = m_sensor_excess_right m"

definition setImplantSize :: "XYZVector \<Rightarrow> DetectorModel \<Rightarrow> DetectorModel" where
  "setImplantSize v m = m\<lparr>m_implant_size := v\<rparr>"

definition setImplantMaterial :: "string \<Rightarrow> DetectorModel \<Rightarrow> DetectorModel" where
  "setImplantMaterial v m = m\<lparr>m_implant_material := v\<rparr>"

definition setImplantOffset :: "XYVector \<Rightarrow> DetectorModel \<Rightarrow> DetectorModel" where
  "setImplantOffset v m = m\<lparr>m_implant_offset := v\<rparr>"

definition setChipThickness :: "real \<Rightarrow> DetectorModel \<Rightarrow> DetectorModel" where
  "setChipThickness v m = m\<lparr>m_chip_thickness := v\<rparr>"

text \<open>
  Modelled from the spec: \<^verbatim>\<open>addSupportLayer\<close> appends a layer of size
  (sz.x, sz.y, thickness) to the sequence (\<open>sz\<close> is the source's \<^verbatim>\<open>size\<close>); its centre is derived by
  \<^verbatim>\<open>getSupportLayers\<close> and holds the origin until then.
\<close>

definition addSupportLayer ::
  "XYVector \<Rightarrow> real \<Rightarrow> XYZVector \<Rightarrow> string \<Rightarrow> string \<Rightarrow> XYVector \<Rightarrow> XYVector \<Rightarrow> DetectorModel \<Rightarrow> DetectorModel" where
  "addSupportLayer sz thickness offset material location hole_size hole_offset m =
     m\<lparr>m_support_layers := m_support_layers m @
        [\<lparr>layer_center = XYZVector 0 0 0,
          layer_size = XYZVector (x2 sz) (y2 sz) thickness,
          layer_material = material,
          layer_offset = offset,
          layer_hole_size = hole_size,
          layer_hole_offset = hole_offset,
          layer_location = location\<rparr>]\<rparr>"

section \<open>Construction\<close>

text \<open>
  The object as the member initialisers leave it: the type and the reader are set, no
  layer has been added, and the other fields hold nothing that is read before it is set.
\<close>

definition blank_model :: "string \<Rightarrow> ConfigReader \<Rightarrow> DetectorModel" where
  "blank_model ty reader =
     \<lparr>m_type = ty,
      m_reader = reader,
      m_number_of_pixels = (0, 0),
      m_pixel_size = XYVector 0 0,
      m_sensor_thickness = 0,
      m_sensor_excess_top = 0,
      m_sensor_excess_bottom = 0,
      m_sensor_excess_left = 0,
      m_sensor_excess_right = 0,
      m_implant_size = XYZVector 0 0 0,
      m_implant_material = [],
      m_implant_offset = XYVector 0 0,
      m_chip_thickness = 0,
      m_support_layers = []\<rparr>"

text \<open>
  The constructor, in the four parts its comments mark.  Lines 20 to 35: the number of
  pixels, the pixel size, the sensor thickness and the sensor excess.  The local
  \<^verbatim>\<open>pixel_size\<close> is used further down, so it is returned with the object.
\<close>

definition ctor_sensor :: "Configuration \<Rightarrow> DetectorModel \<Rightarrow> ConfigurationError + (XYVector \<times> DetectorModel)" where
  "ctor_sensor config m0 =
     bindE (get as_uint_pair config ''number_of_pixels'') (\<lambda>number_of_pixels.
     let m = setNPixels number_of_pixels m0 in
     bindE (get as_XYVector config ''pixel_size'') (\<lambda>pixel_size.
     let m = setPixelSize pixel_size m in
     bindE (get as_double config ''sensor_thickness'') (\<lambda>sensor_thickness.
     let m = setSensorThickness sensor_thickness m in
     bindE (get_or as_double config ''sensor_excess'' 0) (\<lambda>default_sensor_excess.
     bindE (get_or as_double config ''sensor_excess_top'' default_sensor_excess) (\<lambda>excess_top.
     let m = setSensorExcessTop excess_top m in
     bindE (get_or as_double config ''sensor_excess_bottom'' default_sensor_excess) (\<lambda>excess_bottom.
     let m = setSensorExcessBottom excess_bottom m in
     bindE (get_or as_double config ''sensor_excess_left'' default_sensor_excess) (\<lambda>excess_left.
     let m = setSensorExcessLeft excess_left m in
     bindE (get_or as_double config ''sensor_excess_right'' default_sensor_excess) (\<lambda>excess_right.
     let m = setSensorExcessRight excess_right m in
     Inr (pixel_size, m)))))))))"

text \<open>
  Lines 38 to 46: the \<^verbatim>\<open>try\<close> block holds the read of a 3D vector and nothing else;
  whatever that read throws is caught, and the handler reads a 2D vector that defaults
  to the pixel size.
\<close>

definition read_implant_size :: "Configuration \<Rightarrow> XYVector \<Rightarrow> ConfigurationError + XYZVector" where
  "read_implant_size config pixel_size =
     (case get as_XYZVector config ''implant_size'' of
        Inr implant_size \<Rightarrow> Inr implant_size
      | Inl caught \<Rightarrow>
          bindE (get_or as_XYVector config ''implant_size'' pixel_size) (\<lambda>implant_area.
          Inr (XYZVector (x2 implant_area) (y2 implant_area) 0)))"

text \<open>
  Lines 47 to 62: the implant checks, the implant material and the implant offset.  The
  reasons of the errors are the source's, without its quotation marks.
\<close>

definition ctor_implant ::
  "Getters \<Rightarrow> Configuration \<Rightarrow> XYVector \<Rightarrow> XYZVector \<Rightarrow> DetectorModel \<Rightarrow> ConfigurationError + DetectorModel" where
  "ctor_implant g config pixel_size implant_size m0 =
     (if X implant_size > x2 pixel_size \<or> Y implant_size > y2 pixel_size
      then Inl (InvalidValueError ''implant_size'' ''implant size cannot be larger than pixel pitch'')
      else if Z implant_size > Z (getSensorSize g m0)
      then Inl (InvalidValueError ''implant_size'' ''implant depth cannot be larger than sensor thickness'')
      else
        let m = setImplantSize implant_size m0 in
        bindE (get_or as_string config ''implant_material'' ''aluminum'') (\<lambda>implant_material.
        let m = setImplantMaterial implant_material m in
        bindE (get_or as_XYVector config ''implant_offset'' (XYVector 0 0)) (\<lambda>implant_offset.
        if \<bar>x2 implant_offset\<bar> + X implant_size / 2 > x2 pixel_size / 2 \<or>
           \<bar>y2 implant_offset\<bar> + Y implant_size / 2 > y2 pixel_size / 2
        then Inl (InvalidValueError ''implant_offset''
                    ''implant exceeds pixel cell. Reduce implant size or offset'')
        else Inr (setImplantOffset implant_offset m))))"

text \<open>Lines 69 to 89: the body of the loop over the support sections.\<close>

definition support_layer_body :: "Configuration \<Rightarrow> DetectorModel \<Rightarrow> ConfigurationError + DetectorModel" where
  "support_layer_body support_config m =
     bindE (get as_double support_config ''thickness'') (\<lambda>thickness.
     bindE (get as_XYVector support_config ''size'') (\<lambda>sz.
     bindE (get_or as_string support_config ''location'' ''chip'') (\<lambda>read_location.
     let location = lowercase read_location in
     if location \<noteq> ''sensor'' \<and> location \<noteq> ''chip'' \<and> location \<noteq> ''absolute''
     then Inl (InvalidValueError ''location''
                 ''location of the support should be chip, sensor or absolute'')
     else
       bindE (if location = ''absolute''
              then get as_XYZVector support_config ''offset''
              else bindE (get_or as_XYVector support_config ''offset'' (XYVector 0 0)) (\<lambda>xy_offset.
                   Inr (XYZVector (x2 xy_offset) (y2 xy_offset) 0))) (\<lambda>offset.
       bindE (get_or as_string support_config ''material'' ''g10'') (\<lambda>read_material.
       let material = lowercase read_material in
       bindE (get_or as_XYVector support_config ''hole_size'' (XYVector 0 0)) (\<lambda>hole_size.
       bindE (get_or as_XYVector support_config ''hole_offset'' (XYVector 0 0)) (\<lambda>hole_offset.
       Inr (addSupportLayer sz thickness offset material location hole_size hole_offset m))))))))"

fun support_loop :: "Configuration list \<Rightarrow> DetectorModel \<Rightarrow> ConfigurationError + DetectorModel" where
  "support_loop [] m = Inr m"
| "support_loop (support_config # rest) m =
     bindE (support_layer_body support_config m) (support_loop rest)"

text \<open>Lines 64 to 90: the chip thickness, then the support layers.\<close>

definition ctor_support :: "Configuration \<Rightarrow> DetectorModel \<Rightarrow> ConfigurationError + DetectorModel" where
  "ctor_support config m0 =
     bindE (get_or as_double config ''chip_thickness'' 0) (\<lambda>chip_thickness.
     let m = setChipThickness chip_thickness m0 in
     support_loop (reader_getConfigurations_named (m_reader m) ''support'') m)"

definition DetectorModel :: "Getters \<Rightarrow> string \<Rightarrow> ConfigReader \<Rightarrow> ConfigurationError + DetectorModel" where
  "DetectorModel g ty reader =
     (let m = blank_model ty reader;
          config = getHeaderConfiguration (m_reader m) in
      bindE (ctor_sensor config m) (\<lambda>(pixel_size, m).
      bindE (read_implant_size config pixel_size) (\<lambda>implant_size.
      bindE (ctor_implant g config pixel_size implant_size m) (\<lambda>m.
      ctor_support config m))))"

section \<open>Queries\<close>

text \<open>
  The queries are \<^verbatim>\<open>const\<close> member functions.  Each is modelled as a function from
  the object to its result and the object after the call, and the locals of
  \<^verbatim>\<open>getSupportLayers\<close> are a record of their own beside the object, so that what a
  call leaves of the object is a statement to prove.
\<close>

record support_frame =
  this :: DetectorModel
  ret_layers :: "SupportLayer list"
  sensor_offset :: real
  chip_offset :: real

text \<open>
  Lines 156 to 165: the body of the loop \<^verbatim>\<open>for(auto& layer : ret_layers)\<close> at
  position \<open>i\<close>.  The reference \<^verbatim>\<open>layer\<close> is the element of the local copy; the
  local \<^verbatim>\<open>offset\<close> is a copy of the layer's offset.
\<close>

definition support_body :: "Getters \<Rightarrow> nat \<Rightarrow> support_frame \<Rightarrow> support_frame" where
  "support_body g i s =
     (let layer = ret_layers s ! i;
          offset = layer_offset layer in
      if layer_location layer = ''sensor'' then
        (let offset = SetZ offset (sensor_offset s - Z (layer_size layer) / 2);
             s = s\<lparr>sensor_offset := sensor_offset s - Z (layer_size layer)\<rparr>
         in s\<lparr>ret_layers := (ret_layers s)[i := layer\<lparr>layer_center := vplus (getCenter g (this s)) offset\<rparr>]\<rparr>)
      else if layer_location layer = ''chip'' then
        (let offset = SetZ offset (chip_offset s + Z (layer_size layer) / 2);
             s = s\<lparr>chip_offset := chip_offset s + Z (layer_size layer)\<rparr>
         in s\<lparr>ret_layers := (ret_layers s)[i := layer\<lparr>layer_center := vplus (getCenter g (this s)) offset\<rparr>]\<rparr>)
      else
        s\<lparr>ret_layers := (ret_layers s)[i := layer\<lparr>layer_center := vplus (getCenter g (this s)) offset\<rparr>]\<rparr>)"

definition getSupportLayers :: "Getters \<Rightarrow> DetectorModel \<Rightarrow> SupportLayer list \<times> DetectorModel" where
  "getSupportLayers g m =
     (let s0 = \<lparr>this = m,
                ret_layers = m_support_layers m,
                sensor_offset = - Z (getSensorSize g m) / 2,
                chip_offset = Z (getSensorSize g m) / 2 + Z (getChipSize g m)\<rparr>;
          s = fold (support_body g) [0..<length (ret_layers s0)] s0
      in (ret_layers s, this s))"

text \<open>
  Lines 123 to 128, and again lines 134 to 139: the six statements that extend the
  corners \<^verbatim>\<open>max\<close> and \<^verbatim>\<open>min\<close> by an element of the given centre and size.
\<close>

definition extend_corners :: "XYZPoint \<Rightarrow> XYZVector \<Rightarrow> XYZVector \<times> XYZVector \<Rightarrow> XYZVector \<times> XYZVector" where
  "extend_corners c sz corners =
     (let mx = fst corners; mn = snd corners;
          mx = SetX mx (max (X mx) (X (vplus c (vdiv sz 2))));
          mx = SetY mx (max (Y mx) (Y (vplus c (vdiv sz 2))));
          mx = SetZ mx (max (Z mx) (Z (vplus c (vdiv sz 2))));
          mn = SetX mn (min (X mn) (X (vminus c (vdiv sz 2))));
          mn = SetY mn (min (Y mn) (Y (vminus c (vdiv sz 2))));
          mn = SetZ mn (min (Z mn) (Z (vminus c (vdiv sz 2))))
      in (mx, mn))"

text \<open>Lines 114 to 140: the corners after both loops, and the object after the call.\<close>

definition getSize_corners :: "Getters \<Rightarrow> DetectorModel \<Rightarrow> (XYZVector \<times> XYZVector) \<times> DetectorModel" where
  "getSize_corners g m =
     (let max0 = XYZVector DBL_LOWEST DBL_LOWEST DBL_LOWEST;
          min0 = XYZVector DBL_MAX DBL_MAX DBL_MAX;
          centers = [getSensorCenter g m, getChipCenter g m];
          sizes = [getSensorSize g m, getChipSize g m];
          corners = fold (\<lambda>i. extend_corners (centers ! i) (sizes ! i)) [0..<2] (max0, min0);
          (layers, m) = getSupportLayers g m;
          corners = fold (\<lambda>support_layer. extend_corners (layer_center support_layer) (layer_size support_layer))
                      layers corners
      in (corners, m))"

definition getSize :: "Getters \<Rightarrow> DetectorModel \<Rightarrow> XYZVector \<times> DetectorModel" where
  "getSize g m =
     (let ((mx, mn), m) = getSize_corners g m;
          sz = XYZVector 0 0 0;
          sz = SetX sz (2 * max (X mx - X (getCenter g m)) (X (getCenter g m) - X mn));
          sz = SetY sz (2 * max (Y mx - Y (getCenter g m)) (Y (getCenter g m) - Y mn));
          sz = SetZ sz ((Z mx - Z (getCenter g m)) + (Z (getCenter g m) - Z mn))
      in (sz, m))"

text \<open>
  \<^verbatim>\<open>DetectorModel::getConfigurations\<close>: the header section is copied into the local
  \<^verbatim>\<open>global_config_\<close>, every unnamed section is merged into that copy, every named
  section is pushed back, and the merged section is inserted at the front.
\<close>

definition getConfigurations :: "DetectorModel \<Rightarrow> Configuration list \<times> DetectorModel" where
  "getConfigurations m =
     (let configurations = [];
          global_config = getHeaderConfiguration (m_reader m);
          (global_config, configurations) =
            fold (\<lambda>config (global_config, configurations).
                    if getName config = [] then (merge global_config config, configurations)
                    else (global_config, configurations @ [config]))
                 (reader_getConfigurations (m_reader m)) (global_config, configurations)
      in (global_config # configurations, m))"

section \<open>What the spec says of the queries\<close>

text \<open>
  The stacking algorithm in the words of the spec (section 4.2): two running offsets, the
  layers traversed in declaration order; a sensor layer is placed at the sensor offset
  minus half its thickness and moves that offset down by its thickness, a chip layer is
  placed at the chip offset plus half its thickness and moves that offset up, any other
  layer keeps its declared offset; the centre is the centre of the model plus the offset.
\<close>

fun stack_layers :: "XYZPoint \<Rightarrow> real \<Rightarrow> real \<Rightarrow> SupportLayer list \<Rightarrow> SupportLayer list" where
  "stack_layers c so co [] = []"
| "stack_layers c so co (l # ls) =
     (if layer_location l = ''sensor'' then
        l\<lparr>layer_center := vplus c (SetZ (layer_offset l) (so - Z (layer_size l) / 2))\<rparr>
          # stack_layers c (so - Z (layer_size l)) co ls
      else if layer_location l = ''chip'' then
        l\<lparr>layer_center := vplus c (SetZ (layer_offset l) (co + Z (layer_size l) / 2))\<rparr>
          # stack_layers c so (co + Z (layer_size l)) ls
      else
        l\<lparr>layer_center := vplus c (layer_offset l)\<rparr> # stack_layers c so co ls)"

text \<open>
  The distance of a placed layer from the front face of the sensor, towards negative z,
  and from the back face of the chip, towards positive z.
\<close>

definition sensor_side_distance :: "Getters \<Rightarrow> DetectorModel \<Rightarrow> SupportLayer \<Rightarrow> real" where
  "sensor_side_distance g m l =
     (Z (getCenter g m) - m_sensor_thickness m / 2) - Z (layer_center l)"

definition chip_side_distance :: "Getters \<Rightarrow> DetectorModel \<Rightarrow> SupportLayer \<Rightarrow> real" where
  "chip_side_distance g m l =
     Z (layer_center l) - (Z (getCenter g m) + m_sensor_thickness m / 2 + m_chip_thickness m)"

text \<open>
  The envelope in the words of the spec (section 4.3): the elements are the sensor, the
  chip and every support layer with its derived centre, each a centre and a size; the
  corners are the largest centre plus half size and the smallest centre minus half size
  over the elements, axis by axis.
\<close>

definition box_hi :: "XYZPoint \<times> XYZVector \<Rightarrow> XYZVector" where
  "box_hi b = vplus (fst b) (vdiv (snd b) 2)"

definition box_lo :: "XYZPoint \<times> XYZVector \<Rightarrow> XYZVector" where
  "box_lo b = vminus (fst b) (vdiv (snd b) 2)"

definition elements :: "Getters \<Rightarrow> DetectorModel \<Rightarrow> (XYZPoint \<times> XYZVector) list" where
  "elements g m =
     (getSensorCenter g m, getSensorSize g m) # (getChipCenter g m, getChipSize g m) #
     map (\<lambda>l. (layer_center l, layer_size l)) (fst (getSupportLayers g m))"

definition max_corner :: "(XYZPoint \<times> XYZVector) list \<Rightarrow> XYZVector" where
  "max_corner bs =
     XYZVector (Max ((\<lambda>b. X (box_hi b)) ` set bs)) (Max ((\<lambda>b. Y (box_hi b)) ` set bs))
       (Max ((\<lambda>b. Z (box_hi b)) ` set bs))"

definition min_corner :: "(XYZPoint \<times> XYZVector) list \<Rightarrow> XYZVector" where
  "min_corner bs =
     XYZVector (Min ((\<lambda>b. X (box_lo b)) ` set bs)) (Min ((\<lambda>b. Y (box_lo b)) ` set bs))
       (Min ((\<lambda>b. Z (box_lo b)) ` set bs))"

text \<open>A coordinate vector whose components are of the magnitude of a finite double.\<close>

definition in_double_range :: "XYZVector \<Rightarrow> bool" where
  "in_double_range v \<longleftrightarrow>
     DBL_LOWEST \<le> X v \<and> X v \<le> DBL_MAX \<and> DBL_LOWEST \<le> Y v \<and> Y v \<le> DBL_MAX \<and>
     DBL_LOWEST \<le> Z v \<and> Z v \<le> DBL_MAX"

text \<open>
  The merged configuration in the words of the spec (section 4.4): the unnamed sections
  and the named sections of the reader, each in declaration order, and the value a
  section holds for a key.
\<close>

definition lookup :: "Configuration \<Rightarrow> string \<Rightarrow> ConfigValue option" where
  "lookup config key = map_of (cfg_entries config) key"

definition unnamed_sections :: "DetectorModel \<Rightarrow> Configuration list" where
  "unnamed_sections m = filter (\<lambda>c. getName c = []) (reader_getConfigurations (m_reader m))"

definition named_sections :: "DetectorModel \<Rightarrow> Configuration list" where
  "named_sections m = filter (\<lambda>c. getName c \<noteq> []) (reader_getConfigurations (m_reader m))"

section \<open>Example configurations\<close>

text \<open>
  One choice of the parameter, used in the examples: the origin is the centre of the
  first pixel and the centre of the model is the middle of the pixel grid; the sensor is
  the grid widened by the excess on each side; the chip is the grid, behind the sensor.
\<close>

definition grid_getters :: Getters where
  "grid_getters =
     \<lparr>getCenter = (\<lambda>m. XYZVector
         (real (fst (m_number_of_pixels m)) * x2 (m_pixel_size m) / 2 - x2 (m_pixel_size m) / 2)
         (real (snd (m_number_of_pixels m)) * y2 (m_pixel_size m) / 2 - y2 (m_pixel_size m) / 2)
         0),
      getSensorCenter = (\<lambda>m. XYZVector
         (real (fst (m_number_of_pixels m)) * x2 (m_pixel_size m) / 2 - x2 (m_pixel_size m) / 2
            + (m_sensor_excess_right m - m_sensor_excess_left m) / 2)
         (real (snd (m_number_of_pixels m)) * y2 (m_pixel_size m) / 2 - y2 (m_pixel_size m) / 2
            + (m_sensor_excess_top m - m_sensor_excess_bottom m) / 2)
         0),
      getChipCenter = (\<lambda>m. XYZVector
         (real (fst (m_number_of_pixels m)) * x2 (m_pixel_size m) / 2 - x2 (m_pixel_size m) / 2)
         (real (snd (m_number_of_pixels m)) * y2 (m_pixel_size m) / 2 - y2 (m_pixel_size m) / 2)
         (m_sensor_thickness m / 2 + m_chip_thickness m / 2)),
      sensorSizeXY = (\<lambda>m. XYVector
         (real (fst (m_number_of_pixels m)) * x2 (m_pixel_size m)
            + m_sensor_excess_left m + m_sensor_excess_right m)
         (real (snd (m_number_of_pixels m)) * y2 (m_pixel_size m)
            + m_sensor_excess_top m + m_sensor_excess_bottom m)),
      chipSizeXY = (\<lambda>m. XYVector
         (real (fst (m_number_of_pixels m)) * x2 (m_pixel_size m))
         (real (snd (m_number_of_pixels m)) * y2 (m_pixel_size m)))\<rparr>"

text \<open>
  A 2 by 2 grid of unit pitch and sensor thickness 0.3 with two support layers on the
  sensor side, of thickness 1 and 2, and the model the constructor builds of it.
\<close>

definition stacked_header :: Configuration where
  "stacked_header =
     \<lparr>cfg_name = [],
      cfg_entries = [(''number_of_pixels'', VUIntPair 2 2),
                     (''pixel_size'', VXY (XYVector 1 1)),
                     (''sensor_thickness'', VDouble (3 / 10))]\<rparr>"

definition stacked_reader :: ConfigReader where
  "stacked_reader =
     \<lparr>header_config = stacked_header,
      conf_array =
        [stacked_header,
         \<lparr>cfg_name = ''support'',
          cfg_entries = [(''thickness'', VDouble 1), (''size'', VXY (XYVector 2 2)),
                         (''location'', VString ''sensor'')]\<rparr>,
         \<lparr>cfg_name = ''support'',
          cfg_entries = [(''thickness'', VDouble 2), (''size'', VXY (XYVector 2 2)),
                         (''location'', VString ''Sensor'')]\<rparr>]\<rparr>"

definition stacked_model :: DetectorModel where
  "stacked_model =
     \<lparr>m_type = ''stacked'',
      m_reader = stacked_reader,
      m_number_of_pixels = (2, 2),
      m_pixel_size = XYVector 1 1,
      m_sensor_thickness = 3 / 10,
      m_sensor_excess_top = 0,
      m_sensor_excess_bottom = 0,
      m_sensor_excess_left = 0,
      m_sensor_excess_right = 0,
      m_implant_size = XYZVector 1 1 0,
      m_implant_material = ''aluminum'',
      m_implant_offset = XYVector 0 0,
      m_chip_thickness = 0,
      m_support_layers =
        [\<lparr>layer_center = XYZVector 0 0 0, layer_size = XYZVector 2 2 1,
          layer_material = ''g10'', layer_offset = XYZVector 0 0 0,
          layer_hole_size = XYVector 0 0, layer_hole_offset = XYVector 0 0,
          layer_location = ''sensor''\<rparr>,
         \<lparr>layer_center = XYZVector 0 0 0, layer_size = XYZVector 2 2 2,
          layer_material = ''g10'', layer_offset = XYZVector 0 0 0,
          layer_hole_size = XYVector 0 0, layer_hole_offset = XYVector 0 0,
          layer_location = ''sensor''\<rparr>]\<rparr>"

text \<open>The same grid with sensor thickness 1 and two support layers of thickness 0.\<close>

definition flat_header :: Configuration where
  "flat_header =
     \<lparr>cfg_name = [],
      cfg_entries = [(''number_of_pixels'', VUIntPair 2 2),
                     (''pixel_size'', VXY (XYVector 1 1)),
                     (''sensor_thickness'', VDouble 1)]\<rparr>"

definition flat_reader :: ConfigReader where
  "flat_reader =
     \<lparr>header_config = flat_header,
      conf_array =
        [flat_header,
         \<lparr>cfg_name = ''support'',
          cfg_entries = [(''thickness'', VDouble 0), (''size'', VXY (XYVector 2 2)),
                         (''location'', VString ''sensor'')]\<rparr>,
         \<lparr>cfg_name = ''support'',
          cfg_entries = [(''thickness'', VDouble 0), (''size'', VXY (XYVector 2 2)),
                         (''location'', VString ''sensor'')]\<rparr>]\<rparr>"

definition flat_model :: DetectorModel where
  "flat_model =
     \<lparr>m_type = ''flat'',
      m_reader = flat_reader,
      m_number_of_pixels = (2, 2),
      m_pixel_size = XYVector 1 1,
      m_sensor_thickness = 1,
      m_sensor_excess_top = 0,
      m_sensor_excess_bottom = 0,
      m_sensor_excess_left = 0,
      m_sensor_excess_right = 0,
      m_implant_size = XYZVector 1 1 0,
      m_implant_material = ''aluminum'',
      m_implant_offset = XYVector 0 0,
      m_chip_thickness = 0,
      m_support_layers =
        [\<lparr>layer_center = XYZVector 0 0 0, layer_size = XYZVector 2 2 0,
          layer_material = ''g10'', layer_offset = XYZVector 0 0 0,
          layer_hole_size = XYVector 0 0, layer_hole_offset = XYVector 0 0,
          layer_location = ''sensor''\<rparr>,
         \<lparr>layer_center = XYZVector 0 0 0, layer_size = XYZVector 2 2 0,
          layer_material = ''g10'', layer_offset = XYZVector 0 0 0,
          layer_hole_size = XYVector 0 0, layer_hole_offset = XYVector 0 0,
          layer_location = ''sensor''\<rparr>]\<rparr>"

text \<open>A 2 by 2 grid of pitch -1 and no support layer.\<close>

definition mirrored_header :: Configuration where
  "mirrored_header =
     \<lparr>cfg_name = [],
      cfg_entries = [(''number_of_pixels'', VUIntPair 2 2),
                     (''pixel_size'', VXY (XYVector (- 1) (- 1))),
                     (''sensor_thickness'', VDouble 1)]\<rparr>"

definition mirrored_reader :: ConfigReader where
  "mirrored_reader = \<lparr>header_config = mirrored_header, conf_array = [mirrored_header]\<rparr>"

definition mirrored_model :: DetectorModel where
  "mirrored_model =
     \<lparr>m_type = ''mirrored'',
      m_reader = mirrored_reader,
      m_number_of_pixels = (2, 2),
      m_pixel_size = XYVector (- 1) (- 1),
      m_sensor_thickness = 1,
      m_sensor_excess_top = 0,
      m_sensor_excess_bottom = 0,
      m_sensor_excess_left = 0,
      m_sensor_excess_right = 0,
      m_implant_size = XYZVector (- 1) (- 1) 0,
      m_implant_material = ''aluminum'',
      m_implant_offset = XYVector 0 0,
      m_chip_thickness = 0,
      m_support_layers = []\<rparr>"

text \<open>
  A header that sets the key A, two unnamed sections that set the keys A and B, and one
  support section.
\<close>

definition merged_header :: Configuration where
  "merged_header =
     \<lparr>cfg_name = [],
      cfg_entries = [(''number_of_pixels'', VUIntPair 2 2),
                     (''pixel_size'', VXY (XYVector 1 1)),
                     (''sensor_thickness'', VDouble 1),
                     (''A'', VDouble 0)]\<rparr>"

definition merged_support :: Configuration where
  "merged_support =
     \<lparr>cfg_name = ''support'',
      cfg_entries = [(''thickness'', VDouble 1), (''size'', VXY (XYVector 2 2))]\<rparr>"

definition merged_reader :: ConfigReader where
  "merged_reader =
     \<lparr>header_config = merged_header,
      conf_array =
        [\<lparr>cfg_name = [], cfg_entries = [(''A'', VDouble 1)]\<rparr>,
         \<lparr>cfg_name = [], cfg_entries = [(''B'', VDouble 2)]\<rparr>,
         merged_support]\<rparr>"

definition merged_model :: DetectorModel where
  "merged_model =
     \<lparr>m_type = ''merged'',
      m_reader = merged_reader,
      m_number_of_pixels = (2, 2),
      m_pixel_size = XYVector 1 1,
      m_sensor_thickness = 1,
      m_sensor_excess_top = 0,
      m_sensor_excess_bottom = 0,
      m_sensor_excess_left = 0,
      m_sensor_excess_right = 0,
      m_implant_size = XYZVector 1 1 0,
      m_implant_material = ''aluminum'',
      m_implant_offset = XYVector 0 0,
      m_chip_thickness = 0,
      m_support_layers =
        [\<lparr>layer_center = XYZVector 0 0 0, layer_size = XYZVector 2 2 1,
          layer_material = ''g10'', layer_offset = XYZVector 0 0 0,
          layer_hole_size = XYVector 0 0, layer_hole_offset = XYVector 0 0,
          layer_location = ''chip''\<rparr>]\<rparr>"

text \<open>Headers that set the shared sensor excess, and the excess at the top as well.\<close>

definition excess_header :: Configuration where
  "excess_header =
     \<lparr>cfg_name = [],
      cfg_entries = [(''number_of_pixels'', VUIntPair 2 2),
                     (''pixel_size'', VXY (XYVector 1 1)),
                     (''sensor_thickness'', VDouble 1),
                     (''sensor_excess'', VDouble 5)]\<rparr>"

definition excess_top_header :: Configuration where
  "excess_top_header =
     \<lparr>cfg_name = [],
      cfg_entries = [(''number_of_pixels'', VUIntPair 2 2),
                     (''pixel_size'', VXY (XYVector 1 1)),
                     (''sensor_thickness'', VDouble 1),
                     (''sensor_excess'', VDouble 5),
                     (''sensor_excess_top'', VDouble 2)]\<rparr>"

text \<open>
  Headers whose implant size is a 3D vector wider than the pixel, a scalar, and a 2D
  vector; a reader of a header alone; a support section with a location outside the three.
\<close>

definition oversize_header :: Configuration where
  "oversize_header =
     \<lparr>cfg_name = [],
      cfg_entries = [(''number_of_pixels'', VUIntPair 2 2),
                     (''pixel_size'', VXY (XYVector 1 1)),
                     (''sensor_thickness'', VDouble 1),
                     (''implant_size'', VXYZ (XYZVector 2 1 0))]\<rparr>"

definition scalar_implant_header :: Configuration where
  "scalar_implant_header =
     \<lparr>cfg_name = [],
      cfg_entries = [(''number_of_pixels'', VUIntPair 2 2),
                     (''pixel_size'', VXY (XYVector 1 1)),
                     (''sensor_thickness'', VDouble 1),
                     (''implant_size'', VDouble 1)]\<rparr>"

definition flat_implant_header :: Configuration where
  "flat_implant_header =
     \<lparr>cfg_name = [],
      cfg_entries = [(''number_of_pixels'', VUIntPair 2 2),
                     (''pixel_size'', VXY (XYVector 1 1)),
                     (''sensor_thickness'', VDouble 1),
                     (''implant_size'', VXY (XYVector (1 / 2) (1 / 2)))]\<rparr>"

definition only_header :: "Configuration \<Rightarrow> ConfigReader" where
  "only_header h = \<lparr>header_config = h, conf_array = [h]\<rparr>"

definition top_support :: Configuration where
  "top_support =
     \<lparr>cfg_name = ''support'',
      cfg_entries = [(''thickness'', VDouble 1), (''size'', VXY (XYVector 2 2)),
                     (''location'', VString ''Top'')]\<rparr>"

text \<open>
  The same grid with sensor thickness 1 and chip thickness 0.5 and four support layers:
  on the sensor side of thickness 1, on the chip side (by default) of thickness 1, on the
  sensor side of thickness 0, and on the chip side of thickness 2.
\<close>

definition sandwich_header :: Configuration where
  "sandwich_header =
     \<lparr>cfg_name = [],
      cfg_entries = [(''number_of_pixels'', VUIntPair 2 2),
                     (''pixel_size'', VXY (XYVector 1 1)),
                     (''sensor_thickness'', VDouble 1),
                     (''chip_thickness'', VDouble (1 / 2))]\<rparr>"

definition sandwich_reader :: ConfigReader where
  "sandwich_reader =
     \<lparr>header_config = sandwich_header,
      conf_array =
        [sandwich_header,
         \<lparr>cfg_name = ''support'',
          cfg_entries = [(''thickness'', VDouble 1), (''size'', VXY (XYVector 2 2)),
                         (''location'', VString ''sensor'')]\<rparr>,
         \<lparr>cfg_name = ''support'',
          cfg_entries = [(''thickness'', VDouble 1), (''size'', VXY (XYVector 2 2))]\<rparr>,
         \<lparr>cfg_name = ''support'',
          cfg_entries = [(''thickness'', VDouble 0), (''size'', VXY (XYVector 2 2)),
                         (''location'', VString ''sensor'')]\<rparr>,
         \<lparr>cfg_name = ''support'',
          cfg_entries = [(''thickness'', VDouble 2), (''size'', VXY (XYVector 2 2)),
                         (''location'', VString ''CHIP'')]\<rparr>]\<rparr>"

definition sandwich_model :: DetectorModel where
  "sandwich_model =
     \<lparr>m_type = ''sandwich'',
      m_reader = sandwich_reader,
      m_number_of_pixels = (2, 2),
      m_pixel_size = XYVector 1 1,
      m_sensor_thickness = 1,
      m_sensor_excess_top = 0,
      m_sensor_excess_bottom = 0,
      m_sensor_excess_left = 0,
      m_sensor_excess_right = 0,
      m_implant_size = XYZVector 1 1 0,
      m_implant_material = ''aluminum'',
      m_implant_offset = XYVector 0 0,
      m_chip_thickness = 1 / 2,
      m_support_layers =
        [\<lparr>layer_center = XYZVector 0 0 0, layer_size = XYZVector 2 2 1,
          layer_material = ''g10'', layer_offset = XYZVector 0 0 0,
          layer_hole_size = XYVector 0 0, layer_hole_offset = XYVector 0 0,
          layer_location = ''sensor''\<rparr>,
         \<lparr>layer_center = XYZVector 0 0 0, layer_size = XYZVector 2 2 1,
          layer_material = ''g10'', layer_offset = XYZVector 0 0 0,
          layer_hole_size = XYVector 0 0, layer_hole_offset = XYVector 0 0,
          layer_location = ''chip''\<rparr>,
         \<lparr>layer_center = XYZVector 0 0 0, layer_size = XYZVector 2 2 0,
          layer_material = ''g10'', layer_offset = XYZVector 0 0 0,
          layer_hole_size = XYVector 0 0, layer_hole_offset = XYVector 0 0,
          layer_location = ''sensor''\<rparr>,
         \<lparr>layer_center = XYZVector 0 0 0, layer_size = XYZVector 2 2 2,
          layer_material = ''g10'', layer_offset = XYZVector 0 0 0,
          layer_hole_size = XYVector 0 0, layer_hole_offset = XYVector 0 0,
          layer_location = ''chip''\<rparr>]\<rparr>"

section \<open>Properties\<close>

subsection \<open>Evaluation\<close>

lemma get_simps:
  "get as \<lparr>cfg_name = n, cfg_entries = kv\<rparr> key =
     (case map_of kv key of
        None \<Rightarrow> Inl (MissingKeyError key)
      | Some v \<Rightarrow> (case as v of None \<Rightarrow> Inl (InvalidKeyError key) | Some a \<Rightarrow> Inr a))"
  "get_or as \<lparr>cfg_name = n, cfg_entries = kv\<rparr> key d =
     (case map_of kv key of
        None \<Rightarrow> Inr d
      | Some v \<Rightarrow> (case as v of None \<Rightarrow> Inl (InvalidKeyError key) | Some a \<Rightarrow> Inr a))"
  by (simp_all add: get_def get_or_def)

lemma bindE_simps:
  "bindE (Inl e) f = Inl e" "bindE (Inr a) f = f a"
  by (simp_all add: bindE_def)

lemmas ctor_defs = DetectorModel_def blank_model_def getHeaderConfiguration_def ctor_sensor_def
  read_implant_size_def ctor_implant_def ctor_support_def support_layer_body_def
  reader_getConfigurations_named_def getSensorSize_def
  setNPixels_def setPixelSize_def setSensorThickness_def setSensorExcessTop_def
  setSensorExcessBottom_def setSensorExcessLeft_def setSensorExcessRight_def
  setImplantSize_def setImplantMaterial_def setImplantOffset_def setChipThickness_def
  addSupportLayer_def

lemma stacked_constructed:
  "DetectorModel grid_getters ''stacked'' stacked_reader = Inr stacked_model"
  by (simp add: ctor_defs get_simps bindE_simps stacked_reader_def stacked_header_def
      stacked_model_def Let_def lowercase_def tolower_def)

lemmas vec_defs = vplus_def vminus_def vdiv_def SetX_def SetY_def SetZ_def

subsection \<open>The loop of getSupportLayers\<close>

lemma support_body_step:
  "support_body g (length pre)
      \<lparr>this = m, ret_layers = pre @ l # ls, sensor_offset = so, chip_offset = co\<rparr>
    = \<lparr>this = m,
       ret_layers = (pre @ [hd (stack_layers (getCenter g m) so co [l])]) @ ls,
       sensor_offset = (if layer_location l = ''sensor'' then so - Z (layer_size l) else so),
       chip_offset = (if layer_location l = ''sensor'' then co
                      else if layer_location l = ''chip'' then co + Z (layer_size l) else co)\<rparr>"
  by (simp add: support_body_def Let_def)

lemma stack_layers_Cons:
  "stack_layers c so co (l # ls) =
     hd (stack_layers c so co [l]) #
     stack_layers c (if layer_location l = ''sensor'' then so - Z (layer_size l) else so)
       (if layer_location l = ''sensor'' then co
        else if layer_location l = ''chip'' then co + Z (layer_size l) else co) ls"
  by simp

lemma fold_support_body:
  "\<exists>so' co'. fold (support_body g) [length pre..<length pre + length ls]
      \<lparr>this = m, ret_layers = pre @ ls, sensor_offset = so, chip_offset = co\<rparr>
    = \<lparr>this = m, ret_layers = pre @ stack_layers (getCenter g m) so co ls,
       sensor_offset = so', chip_offset = co'\<rparr>"
proof (induction ls arbitrary: pre so co)
  case Nil
  then show ?case by simp
next
  case (Cons l ls)
  define l' where "l' = hd (stack_layers (getCenter g m) so co [l])"
  define so1 where "so1 = (if layer_location l = ''sensor'' then so - Z (layer_size l) else so)"
  define co1 where "co1 = (if layer_location l = ''sensor'' then co
                      else if layer_location l = ''chip'' then co + Z (layer_size l) else co)"
  have "[length pre..<length pre + Suc (length ls)]
        = length pre # [Suc (length pre)..<length pre + Suc (length ls)]"
    by (rule upt_conv_Cons) simp
  then have upt: "[length pre..<length pre + length (l # ls)]
      = length pre # [length (pre @ [l'])..<length (pre @ [l']) + length ls]"
    by simp
  have step: "support_body g (length pre)
      \<lparr>this = m, ret_layers = pre @ l # ls, sensor_offset = so, chip_offset = co\<rparr>
    = \<lparr>this = m, ret_layers = (pre @ [l']) @ ls, sensor_offset = so1, chip_offset = co1\<rparr>"
    unfolding l'_def so1_def co1_def by (rule support_body_step)
  have unroll: "pre @ stack_layers (getCenter g m) so co (l # ls)
      = (pre @ [l']) @ stack_layers (getCenter g m) so1 co1 ls"
    unfolding l'_def so1_def co1_def by (subst stack_layers_Cons) simp
  from Cons.IH[of "pre @ [l']" so1 co1] obtain so' co' where
    "fold (support_body g) [length (pre @ [l'])..<length (pre @ [l']) + length ls]
        \<lparr>this = m, ret_layers = (pre @ [l']) @ ls, sensor_offset = so1, chip_offset = co1\<rparr>
     = \<lparr>this = m, ret_layers = (pre @ [l']) @ stack_layers (getCenter g m) so1 co1 ls,
         sensor_offset = so', chip_offset = co'\<rparr>"
    by blast
  then have "fold (support_body g) [length pre..<length pre + length (l # ls)]
        \<lparr>this = m, ret_layers = pre @ l # ls, sensor_offset = so, chip_offset = co\<rparr>
     = \<lparr>this = m, ret_layers = pre @ stack_layers (getCenter g m) so co (l # ls),
         sensor_offset = so', chip_offset = co'\<rparr>"
    unfolding upt unroll by (simp only: fold_simps step)
  then show ?case by blast
qed

lemma getSupportLayers_eq:
  "getSupportLayers g m =
     (stack_layers (getCenter g m) (- m_sensor_thickness m / 2)
        (m_sensor_thickness m / 2 + m_chip_thickness m) (m_support_layers m), m)"
proof -
  from fold_support_body[of g "[]" "m_support_layers m" m "- m_sensor_thickness m / 2"
      "m_sensor_thickness m / 2 + m_chip_thickness m"]
  show ?thesis
    by (auto simp: getSupportLayers_def Let_def getSensorSize_def getChipSize_def)
qed

subsection \<open>The order of the stack\<close>

lemma stack_sensor_not_above:
  assumes "k < length ls" and "layer_location (ls ! k) = ''sensor''"
    and "\<forall>n\<le>k. layer_location (ls ! n) = ''sensor'' \<longrightarrow> 0 \<le> Z (layer_size (ls ! n))"
  shows "Z (layer_center (stack_layers c so co ls ! k)) \<le> Z c + so"
  using assms
proof (induction ls arbitrary: so co k)
  case Nil
  then show ?case by simp
next
  case (Cons l ls)
  show ?case
  proof (cases k)
    case 0
    with Cons.prems show ?thesis by (simp add: vec_defs)
  next
    case (Suc k')
    with Cons.prems have k': "k' < length ls" "layer_location (ls ! k') = ''sensor''"
      by auto
    have tail: "\<forall>n\<le>k'. layer_location (ls ! n) = ''sensor'' \<longrightarrow> 0 \<le> Z (layer_size (ls ! n))"
    proof (intro allI impI)
      fix n assume "n \<le> k'" "layer_location (ls ! n) = ''sensor''"
      with Cons.prems(3)[rule_format, of "Suc n"] Suc
      show "0 \<le> Z (layer_size (ls ! n))" by simp
    qed
    have below: "Z (layer_center (stack_layers c so' co' ls ! k')) \<le> Z c + so'" for so' co'
      by (rule Cons.IH[OF k' tail])
    show ?thesis
    proof (cases "layer_location l = ''sensor''")
      case True
      with Cons.prems(3)[rule_format, of 0] have "0 \<le> Z (layer_size l)" by simp
      with below[of "so - Z (layer_size l)" co] show ?thesis using True Suc by simp
    next
      case False
      with below show ?thesis using Suc by simp
    qed
  qed
qed

lemma stack_sensor_order:
  assumes "i < j" and "j < length ls"
    and "layer_location (ls ! i) = ''sensor''" and "layer_location (ls ! j) = ''sensor''"
    and "\<forall>n. i \<le> n \<and> n \<le> j \<and> layer_location (ls ! n) = ''sensor'' \<longrightarrow> 0 \<le> Z (layer_size (ls ! n))"
  shows "Z (layer_center (stack_layers c so co ls ! j)) \<le> Z (layer_center (stack_layers c so co ls ! i))"
  using assms
proof (induction ls arbitrary: so co i j)
  case Nil
  then show ?case by simp
next
  case (Cons l ls)
  from Cons.prems obtain j' where j: "j = Suc j'" by (cases j) auto
  with Cons.prems have j': "j' < length ls" "layer_location (ls ! j') = ''sensor''"
    by auto
  show ?case
  proof (cases i)
    case 0
    with Cons.prems have sensor: "layer_location l = ''sensor''" by simp
    with Cons.prems(5)[rule_format, of 0] 0 have t: "0 \<le> Z (layer_size l)" by simp
    have tail: "\<forall>n\<le>j'. layer_location (ls ! n) = ''sensor'' \<longrightarrow> 0 \<le> Z (layer_size (ls ! n))"
    proof (intro allI impI)
      fix n assume "n \<le> j'" "layer_location (ls ! n) = ''sensor''"
      with Cons.prems(5)[rule_format, of "Suc n"] 0 j
      show "0 \<le> Z (layer_size (ls ! n))" by simp
    qed
    have "Z (layer_center (stack_layers c (so - Z (layer_size l)) co ls ! j'))
        \<le> Z c + (so - Z (layer_size l))"
      by (rule stack_sensor_not_above[OF j' tail])
    then show ?thesis using 0 j sensor t by (simp add: vec_defs)
  next
    case (Suc i')
    with Cons.prems j have i': "i' < j'" "layer_location (ls ! i') = ''sensor''"
      by auto
    have tail: "\<forall>n. i' \<le> n \<and> n \<le> j' \<and> layer_location (ls ! n) = ''sensor'' \<longrightarrow>
        0 \<le> Z (layer_size (ls ! n))"
    proof (intro allI impI)
      fix n assume "i' \<le> n \<and> n \<le> j' \<and> layer_location (ls ! n) = ''sensor''"
      with Cons.prems(5)[rule_format, of "Suc n"] Suc j
      show "0 \<le> Z (layer_size (ls ! n))" by simp
    qed
    have "Z (layer_center (stack_layers c so' co' ls ! j'))
        \<le> Z (layer_center (stack_layers c so' co' ls ! i'))" for so' co'
      by (rule Cons.IH[OF i'(1) j'(1) i'(2) j'(2) tail])
    then show ?thesis using Suc j by simp
  qed
qed

lemma stack_chip_not_below:
  assumes "k < length ls" and "layer_location (ls ! k) = ''chip''"
    and "\<forall>n\<le>k. layer_location (ls ! n) = ''chip'' \<longrightarrow> 0 \<le> Z (layer_size (ls ! n))"
  shows "Z c + co \<le> Z (layer_center (stack_layers c so co ls ! k))"
  using assms
proof (induction ls arbitrary: so co k)
  case Nil
  then show ?case by simp
next
  case (Cons l ls)
  show ?case
  proof (cases k)
    case 0
    with Cons.prems show ?thesis by (simp add: vec_defs)
  next
    case (Suc k')
    with Cons.prems have k': "k' < length ls" "layer_location (ls ! k') = ''chip''"
      by auto
    have tail: "\<forall>n\<le>k'. layer_location (ls ! n) = ''chip'' \<longrightarrow> 0 \<le> Z (layer_size (ls ! n))"
    proof (intro allI impI)
      fix n assume "n \<le> k'" "layer_location (ls ! n) = ''chip''"
      with Cons.prems(3)[rule_format, of "Suc n"] Suc
      show "0 \<le> Z (layer_size (ls ! n))" by simp
    qed
    have above: "Z c + co' \<le> Z (layer_center (stack_layers c so' co' ls ! k'))" for so' co'
      by (rule Cons.IH[OF k' tail])
    show ?thesis
    proof (cases "layer_location l = ''chip''")
      case True
      with Cons.prems(3)[rule_format, of 0] have "0 \<le> Z (layer_size l)" by simp
      with above[of "co + Z (layer_size l)" so] show ?thesis using True Suc by simp
    next
      case False
      with above show ?thesis using Suc by simp
    qed
  qed
qed

lemma stack_chip_order:
  assumes "i < j" and "j < length ls"
    and "layer_location (ls ! i) = ''chip''" and "layer_location (ls ! j) = ''chip''"
    and "\<forall>n. i \<le> n \<and> n \<le> j \<and> layer_location (ls ! n) = ''chip'' \<longrightarrow> 0 \<le> Z (layer_size (ls ! n))"
  shows "Z (layer_center (stack_layers c so co ls ! i)) \<le> Z (layer_center (stack_layers c so co ls ! j))"
  using assms
proof (induction ls arbitrary: so co i j)
  case Nil
  then show ?case by simp
next
  case (Cons l ls)
  from Cons.prems obtain j' where j: "j = Suc j'" by (cases j) auto
  with Cons.prems have j': "j' < length ls" "layer_location (ls ! j') = ''chip''"
    by auto
  show ?case
  proof (cases i)
    case 0
    with Cons.prems have chip: "layer_location l = ''chip''" by simp
    with Cons.prems(5)[rule_format, of 0] 0 have t: "0 \<le> Z (layer_size l)" by simp
    have tail: "\<forall>n\<le>j'. layer_location (ls ! n) = ''chip'' \<longrightarrow> 0 \<le> Z (layer_size (ls ! n))"
    proof (intro allI impI)
      fix n assume "n \<le> j'" "layer_location (ls ! n) = ''chip''"
      with Cons.prems(5)[rule_format, of "Suc n"] 0 j
      show "0 \<le> Z (layer_size (ls ! n))" by simp
    qed
    have "Z c + (co + Z (layer_size l))
        \<le> Z (layer_center (stack_layers c so (co + Z (layer_size l)) ls ! j'))"
      by (rule stack_chip_not_below[OF j' tail])
    then show ?thesis using 0 j chip t by (simp add: vec_defs)
  next
    case (Suc i')
    with Cons.prems j have i': "i' < j'" "layer_location (ls ! i') = ''chip''"
      by auto
    have tail: "\<forall>n. i' \<le> n \<and> n \<le> j' \<and> layer_location (ls ! n) = ''chip'' \<longrightarrow>
        0 \<le> Z (layer_size (ls ! n))"
    proof (intro allI impI)
      fix n assume "i' \<le> n \<and> n \<le> j' \<and> layer_location (ls ! n) = ''chip''"
      with Cons.prems(5)[rule_format, of "Suc n"] Suc j
      show "0 \<le> Z (layer_size (ls ! n))" by simp
    qed
    have "Z (layer_center (stack_layers c so' co' ls ! i'))
        \<le> Z (layer_center (stack_layers c so' co' ls ! j'))" for so' co'
      by (rule Cons.IH[OF i'(1) j'(1) i'(2) j'(2) tail])
    then show ?thesis using Suc j by simp
  qed
qed

lemma sandwich_constructed:
  "DetectorModel grid_getters ''sandwich'' sandwich_reader = Inr sandwich_model"
  by (simp add: ctor_defs get_simps bindE_simps sandwich_reader_def sandwich_header_def
      sandwich_model_def Let_def lowercase_def tolower_def)

subsection \<open>The corners of getSize\<close>

lemma extend_corners_step:
  "extend_corners (fst b) (snd b) (mx, mn) =
     (XYZVector (max (X (box_hi b)) (X mx)) (max (Y (box_hi b)) (Y mx)) (max (Z (box_hi b)) (Z mx)),
      XYZVector (min (X (box_lo b)) (X mn)) (min (Y (box_lo b)) (Y mn)) (min (Z (box_lo b)) (Z mn)))"
  by (simp add: extend_corners_def Let_def SetX_def SetY_def SetZ_def box_hi_def box_lo_def
      max.commute min.commute)

lemma fold_extend_corners:
  "fold (\<lambda>b. extend_corners (fst b) (snd b)) bs (mx, mn) =
     (XYZVector (fold max (map (\<lambda>b. X (box_hi b)) bs) (X mx))
                (fold max (map (\<lambda>b. Y (box_hi b)) bs) (Y mx))
                (fold max (map (\<lambda>b. Z (box_hi b)) bs) (Z mx)),
      XYZVector (fold min (map (\<lambda>b. X (box_lo b)) bs) (X mn))
                (fold min (map (\<lambda>b. Y (box_lo b)) bs) (Y mn))
                (fold min (map (\<lambda>b. Z (box_lo b)) bs) (Z mn)))"
proof (induction bs arbitrary: mx mn)
  case Nil
  show ?case by simp
next
  case (Cons b bs)
  show ?case
    by (simp add: extend_corners_step Cons.IH)
qed

lemma getSize_corners_eq:
  "getSize_corners g m =
     (fold (\<lambda>b. extend_corners (fst b) (snd b)) (elements g m)
        (XYZVector DBL_LOWEST DBL_LOWEST DBL_LOWEST, XYZVector DBL_MAX DBL_MAX DBL_MAX), m)"
proof -
  have two: "[0..<2] = [0, Suc 0]"
    by (simp add: upt_rec numeral_2_eq_2)
  show ?thesis
    by (simp add: getSize_corners_def Let_def two elements_def getSupportLayers_eq fold_map comp_def)
qed

lemma fold_max_Max: "fold max xs (a::real) = Max (insert a (set xs))"
  by (metis Max.set_eq_fold list.simps(15))

lemma fold_min_Min: "fold min xs (a::real) = Min (insert a (set xs))"
  by (metis Min.set_eq_fold list.simps(15))

lemma getSize_eq:
  "getSize g m =
     (XYZVector
        (2 * max (X (fst (fst (getSize_corners g m))) - X (getCenter g m))
                 (X (getCenter g m) - X (snd (fst (getSize_corners g m)))))
        (2 * max (Y (fst (fst (getSize_corners g m))) - Y (getCenter g m))
                 (Y (getCenter g m) - Y (snd (fst (getSize_corners g m)))))
        ((Z (fst (fst (getSize_corners g m))) - Z (getCenter g m)) +
         (Z (getCenter g m) - Z (snd (fst (getSize_corners g m))))), m)"
  by (simp add: getSize_def getSize_corners_eq Let_def SetX_def SetY_def SetZ_def split: prod.splits)

lemma fold_max_seed:
  assumes "a \<le> f b"
  shows "fold max (map f (b # bs)) (a::real) = Max (f ` set (b # bs))"
proof -
  have "fold max (map f (b # bs)) a = fold max (map f bs) (f b)"
    using assms by (simp add: max_def)
  also have "\<dots> = Max (set (f b # map f bs))"
    by (simp only: Max.set_eq_fold)
  finally show ?thesis by simp
qed

lemma fold_min_seed:
  assumes "f b \<le> a"
  shows "fold min (map f (b # bs)) (a::real) = Min (f ` set (b # bs))"
proof -
  have "fold min (map f (b # bs)) a = fold min (map f bs) (f b)"
    using assms by (simp add: min_def)
  also have "\<dots> = Min (set (f b # map f bs))"
    by (simp only: Min.set_eq_fold)
  finally show ?thesis by simp
qed

lemma corners_in_range:
  assumes "in_double_range (box_hi (getSensorCenter g m, getSensorSize g m))"
    and "in_double_range (box_lo (getSensorCenter g m, getSensorSize g m))"
  shows "fst (getSize_corners g m) = (max_corner (elements g m), min_corner (elements g m))"
proof -
  obtain bs where es: "elements g m = (getSensorCenter g m, getSensorSize g m) # bs"
    by (simp add: elements_def)
  show ?thesis
    using assms unfolding getSize_corners_eq fst_conv fold_extend_corners max_corner_def min_corner_def es
    by (simp only: XYZVector.sel fold_max_seed fold_min_seed in_double_range_def)
qed

lemma corner_bounds:
  assumes "b \<in> set (elements g m)"
  shows "X (box_hi b) \<le> X (fst (fst (getSize_corners g m)))"
    and "Y (box_hi b) \<le> Y (fst (fst (getSize_corners g m)))"
    and "Z (box_hi b) \<le> Z (fst (fst (getSize_corners g m)))"
    and "X (snd (fst (getSize_corners g m))) \<le> X (box_lo b)"
    and "Y (snd (fst (getSize_corners g m))) \<le> Y (box_lo b)"
    and "Z (snd (fst (getSize_corners g m))) \<le> Z (box_lo b)"
  using assms unfolding getSize_corners_eq fst_conv snd_conv fold_extend_corners XYZVector.sel
    fold_max_Max fold_min_Min
  by (auto intro!: Max_ge Min_le)

lemma size_nonneg_axis:
  assumes "hi \<le> (mx::real)" "mn \<le> lo" "lo \<le> hi"
  shows "0 \<le> 2 * max (mx - c) (c - mn)" "0 \<le> (mx - c) + (c - mn)"
  using assms by (auto simp: max_def)

lemma stacked_elements:
  "elements grid_getters stacked_model =
     [(XYZVector (1/2) (1/2) 0, XYZVector 2 2 (3/10)),
      (XYZVector (1/2) (1/2) (3/20), XYZVector 2 2 0),
      (XYZVector (1/2) (1/2) (- 13/20), XYZVector 2 2 1),
      (XYZVector (1/2) (1/2) (- 43/20), XYZVector 2 2 2)]"
  by (simp add: elements_def getSupportLayers_eq stacked_model_def grid_getters_def
      getSensorSize_def getChipSize_def vec_defs)

lemma mirrored_elements:
  "elements grid_getters mirrored_model =
     [(XYZVector (- 1/2) (- 1/2) 0, XYZVector (- 2) (- 2) 1),
      (XYZVector (- 1/2) (- 1/2) (1/2), XYZVector (- 2) (- 2) 0)]"
  by (simp add: elements_def getSupportLayers_eq mirrored_model_def grid_getters_def
      getSensorSize_def getChipSize_def vec_defs)

subsection \<open>The loop of getConfigurations\<close>

lemma stack_layers_fields:
  "map (\<lambda>l. l\<lparr>layer_center := v\<rparr>) (stack_layers c so co ls) = map (\<lambda>l. l\<lparr>layer_center := v\<rparr>) ls"
  by (induction ls arbitrary: so co) auto

lemma getConfigurations_loop:
  "fold (\<lambda>config (global_config, configurations).
           if getName config = [] then (merge global_config config, configurations)
           else (global_config, configurations @ [config])) cs (gc, acc)
   = (foldl merge gc (filter (\<lambda>c. cfg_name c = []) cs), acc @ filter (\<lambda>c. cfg_name c \<noteq> []) cs)"
  by (induction cs arbitrary: gc acc) (auto simp: getName_def)

lemma getConfigurations_eq:
  "getConfigurations m =
     (foldl merge (header_config (m_reader m)) (filter (\<lambda>c. cfg_name c = []) (conf_array (m_reader m)))
        # filter (\<lambda>c. cfg_name c \<noteq> []) (conf_array (m_reader m)), m)"
  by (simp add: getConfigurations_def Let_def getConfigurations_loop getHeaderConfiguration_def
      reader_getConfigurations_def)

lemma merge_lookup:
  "map_of (cfg_entries (merge a b)) k =
     (case map_of (cfg_entries b) k of None \<Rightarrow> map_of (cfg_entries a) k | Some v \<Rightarrow> Some v)"
  by (simp add: merge_def map_add_def)

lemma foldl_merge_absent:
  assumes "\<forall>c\<in>set bs. map_of (cfg_entries c) k = None"
  shows "map_of (cfg_entries (foldl merge a bs)) k = map_of (cfg_entries a) k"
  using assms by (induction bs arbitrary: a) (simp_all add: merge_lookup)

lemma merged_constructed:
  "DetectorModel grid_getters ''merged'' merged_reader = Inr merged_model"
  by (simp add: ctor_defs get_simps bindE_simps merged_reader_def merged_header_def
      merged_support_def merged_model_def Let_def lowercase_def tolower_def)

subsection \<open>The constructor\<close>

lemma bindE_Inr_iff: "bindE r f = Inr y \<longleftrightarrow> (\<exists>a. r = Inr a \<and> f a = Inr y)"
  by (cases r) (simp_all add: bindE_def)

lemma bindE_Inl_iff: "bindE r f = Inl e \<longleftrightarrow> r = Inl e \<or> (\<exists>a. r = Inr a \<and> f a = Inl e)"
  by (cases r) (simp_all add: bindE_def)

lemma get_cases:
  "get as config key = Inl e \<Longrightarrow> e = MissingKeyError key \<or> e = InvalidKeyError key"
  by (auto simp: get_def split: option.splits)

lemma get_or_cases:
  "get_or as config key d = Inl e \<Longrightarrow> e = InvalidKeyError key"
  by (auto simp: get_or_def split: option.splits)

lemma get_or_absent: "lookup config key = None \<Longrightarrow> get_or as config key d = Inr d"
  by (simp add: get_or_def lookup_def)

lemma get_absent: "lookup config key = None \<Longrightarrow> get as config key = Inl (MissingKeyError key)"
  by (simp add: get_def lookup_def)

lemmas setter_defs = setNPixels_def setPixelSize_def setSensorThickness_def setSensorExcessTop_def
  setSensorExcessBottom_def setSensorExcessLeft_def setSensorExcessRight_def
  setImplantSize_def setImplantMaterial_def setImplantOffset_def setChipThickness_def

lemma ctor_sensor_Inr:
  assumes "ctor_sensor config m0 = Inr (pixel_size, m1)"
  shows "\<exists>n st d t b l r.
      get as_uint_pair config ''number_of_pixels'' = Inr n \<and>
      get as_XYVector config ''pixel_size'' = Inr pixel_size \<and>
      get as_double config ''sensor_thickness'' = Inr st \<and>
      get_or as_double config ''sensor_excess'' 0 = Inr d \<and>
      get_or as_double config ''sensor_excess_top'' d = Inr t \<and>
      get_or as_double config ''sensor_excess_bottom'' d = Inr b \<and>
      get_or as_double config ''sensor_excess_left'' d = Inr l \<and>
      get_or as_double config ''sensor_excess_right'' d = Inr r \<and>
      m1 = m0\<lparr>m_number_of_pixels := n, m_pixel_size := pixel_size, m_sensor_thickness := st,
              m_sensor_excess_top := t, m_sensor_excess_bottom := b,
              m_sensor_excess_left := l, m_sensor_excess_right := r\<rparr>"
  using assms unfolding ctor_sensor_def Let_def bindE_Inr_iff setter_defs
  by auto

lemma ctor_implant_Inr:
  assumes "ctor_implant g config pixel_size implant_size m1 = Inr m2"
  shows "\<exists>mat off.
      \<not> (X implant_size > x2 pixel_size \<or> Y implant_size > y2 pixel_size) \<and>
      \<not> Z implant_size > m_sensor_thickness m1 \<and>
      get_or as_string config ''implant_material'' ''aluminum'' = Inr mat \<and>
      get_or as_XYVector config ''implant_offset'' (XYVector 0 0) = Inr off \<and>
      \<not> (\<bar>x2 off\<bar> + X implant_size / 2 > x2 pixel_size / 2 \<or>
         \<bar>y2 off\<bar> + Y implant_size / 2 > y2 pixel_size / 2) \<and>
      m2 = m1\<lparr>m_implant_size := implant_size, m_implant_material := mat, m_implant_offset := off\<rparr>"
  using assms unfolding ctor_implant_def Let_def setter_defs getSensorSize_def
  by (auto simp: bindE_Inr_iff split: if_splits)

lemma support_layer_body_Inr:
  assumes "support_layer_body sc m = Inr m'"
  shows "\<exists>t sz loc off mat hs ho.
      get as_double sc ''thickness'' = Inr t \<and>
      get as_XYVector sc ''size'' = Inr sz \<and>
      get_or as_string sc ''location'' ''chip'' = Inr loc \<and>
      (lowercase loc = ''sensor'' \<or> lowercase loc = ''chip'' \<or> lowercase loc = ''absolute'') \<and>
      (if lowercase loc = ''absolute'' then get as_XYZVector sc ''offset'' = Inr off
       else \<exists>xy. get_or as_XYVector sc ''offset'' (XYVector 0 0) = Inr xy \<and>
                 off = XYZVector (x2 xy) (y2 xy) 0) \<and>
      get_or as_string sc ''material'' ''g10'' = Inr mat \<and>
      get_or as_XYVector sc ''hole_size'' (XYVector 0 0) = Inr hs \<and>
      get_or as_XYVector sc ''hole_offset'' (XYVector 0 0) = Inr ho \<and>
      m' = addSupportLayer sz t off (lowercase mat) (lowercase loc) hs ho m"
  using assms unfolding support_layer_body_def Let_def
  by (auto simp: bindE_Inr_iff split: if_splits)

lemma support_layer_body_append:
  assumes "support_layer_body sc m = Inr m'"
  shows "\<exists>l. m' = m\<lparr>m_support_layers := m_support_layers m @ [l]\<rparr> \<and>
      (\<forall>m0. support_layer_body sc m0 = Inr (m0\<lparr>m_support_layers := m_support_layers m0 @ [l]\<rparr>))"
proof -
  from support_layer_body_Inr[OF assms] obtain t sz loc off mat hs ho where
    t: "get as_double sc ''thickness'' = Inr t"
    and sz: "get as_XYVector sc ''size'' = Inr sz"
    and loc: "get_or as_string sc ''location'' ''chip'' = Inr loc"
    and valid: "lowercase loc = ''sensor'' \<or> lowercase loc = ''chip'' \<or> lowercase loc = ''absolute''"
    and off: "if lowercase loc = ''absolute'' then get as_XYZVector sc ''offset'' = Inr off
       else \<exists>xy. get_or as_XYVector sc ''offset'' (XYVector 0 0) = Inr xy \<and>
                 off = XYZVector (x2 xy) (y2 xy) 0"
    and mat: "get_or as_string sc ''material'' ''g10'' = Inr mat"
    and hs: "get_or as_XYVector sc ''hole_size'' (XYVector 0 0) = Inr hs"
    and ho: "get_or as_XYVector sc ''hole_offset'' (XYVector 0 0) = Inr ho"
    and m': "m' = addSupportLayer sz t off (lowercase mat) (lowercase loc) hs ho m"
    by blast
  have offset: "(if lowercase loc = ''absolute''
              then get as_XYZVector sc ''offset''
              else bindE (get_or as_XYVector sc ''offset'' (XYVector 0 0)) (\<lambda>xy_offset.
                   Inr (XYZVector (x2 xy_offset) (y2 xy_offset) 0))) = Inr off"
    using off by (cases "lowercase loc = ''absolute''") (auto simp: bindE_simps)
  have body: "support_layer_body sc m0 = Inr (addSupportLayer sz t off (lowercase mat) (lowercase loc) hs ho m0)" for m0
    unfolding support_layer_body_def t sz loc bindE_simps Let_def offset mat hs ho
    using valid by simp
  show ?thesis
    unfolding m' body addSupportLayer_def by blast
qed

lemma support_loop_Inr:
  assumes "support_loop scs m = Inr m'"
  shows "\<exists>ls. length ls = length scs \<and>
      m' = m\<lparr>m_support_layers := m_support_layers m @ ls\<rparr> \<and>
      (\<forall>i<length scs. \<forall>m0. support_layer_body (scs ! i) m0
          = Inr (m0\<lparr>m_support_layers := m_support_layers m0 @ [ls ! i]\<rparr>))"
  using assms
proof (induction scs arbitrary: m)
  case Nil
  then show ?case by simp
next
  case (Cons sc scs)
  from Cons.prems obtain m1 where b: "support_layer_body sc m = Inr m1"
    and r: "support_loop scs m1 = Inr m'"
    by (auto simp: bindE_Inr_iff)
  from support_layer_body_append[OF b] obtain l where
    m1: "m1 = m\<lparr>m_support_layers := m_support_layers m @ [l]\<rparr>"
    and l: "\<forall>m0. support_layer_body sc m0 = Inr (m0\<lparr>m_support_layers := m_support_layers m0 @ [l]\<rparr>)"
    by blast
  from Cons.IH[OF r] obtain ls where len: "length ls = length scs"
    and m': "m' = m1\<lparr>m_support_layers := m_support_layers m1 @ ls\<rparr>"
    and ls: "\<forall>i<length scs. \<forall>m0. support_layer_body (scs ! i) m0
          = Inr (m0\<lparr>m_support_layers := m_support_layers m0 @ [ls ! i]\<rparr>)"
    by blast
  have "\<forall>i<length (sc # scs). \<forall>m0. support_layer_body ((sc # scs) ! i) m0
          = Inr (m0\<lparr>m_support_layers := m_support_layers m0 @ [(l # ls) ! i]\<rparr>)"
    using l ls by (auto simp: nth_Cons split: nat.splits)
  moreover have "m' = m\<lparr>m_support_layers := m_support_layers m @ l # ls\<rparr>"
    using m' m1 by simp
  moreover have "length (l # ls) = length (sc # scs)"
    using len by simp
  ultimately show ?case by blast
qed

lemma support_loop_stops:
  assumes "support_loop before m = Inr m1" and "support_layer_body sc m1 = Inl e"
  shows "support_loop (before @ sc # after) m = Inl e"
  using assms
proof (induction before arbitrary: m)
  case Nil
  then show ?case by (simp add: bindE_simps)
next
  case (Cons a before)
  then show ?case by (auto simp: bindE_Inr_iff bindE_simps)
qed

lemma DetectorModel_Inr:
  assumes "DetectorModel g ty reader = Inr m"
  shows "\<exists>pixel_size m1 implant_size m2 ct.
      ctor_sensor (getHeaderConfiguration reader) (blank_model ty reader) = Inr (pixel_size, m1) \<and>
      read_implant_size (getHeaderConfiguration reader) pixel_size = Inr implant_size \<and>
      ctor_implant g (getHeaderConfiguration reader) pixel_size implant_size m1 = Inr m2 \<and>
      get_or as_double (getHeaderConfiguration reader) ''chip_thickness'' 0 = Inr ct \<and>
      support_loop (reader_getConfigurations_named reader ''support'') (m2\<lparr>m_chip_thickness := ct\<rparr>) = Inr m \<and>
      m_reader m2 = reader \<and> m_support_layers m2 = []"
proof -
  from assms obtain pixel_size m1 implant_size m2 where
    s: "ctor_sensor (getHeaderConfiguration reader) (blank_model ty reader) = Inr (pixel_size, m1)"
    and r: "read_implant_size (getHeaderConfiguration reader) pixel_size = Inr implant_size"
    and i: "ctor_implant g (getHeaderConfiguration reader) pixel_size implant_size m1 = Inr m2"
    and c: "ctor_support (getHeaderConfiguration reader) m2 = Inr m"
    unfolding DetectorModel_def Let_def
    by (auto simp: bindE_Inr_iff blank_model_def split: prod.splits)
  from ctor_sensor_Inr[OF s] have m1: "m_reader m1 = reader" "m_support_layers m1 = []"
    by (auto simp: blank_model_def)
  from ctor_implant_Inr[OF i] m1 have m2: "m_reader m2 = reader" "m_support_layers m2 = []"
    by auto
  from c m2 obtain ct where
    "get_or as_double (getHeaderConfiguration reader) ''chip_thickness'' 0 = Inr ct"
    "support_loop (reader_getConfigurations_named reader ''support'') (m2\<lparr>m_chip_thickness := ct\<rparr>) = Inr m"
    unfolding ctor_support_def Let_def setter_defs by (auto simp: bindE_Inr_iff)
  with s r i m2 show ?thesis by blast
qed

lemma get_or_present:
  "lookup config key = Some v \<Longrightarrow> as v = Some a \<Longrightarrow> get_or as config key d = Inr a"
  by (simp add: get_or_def lookup_def)

lemma constructed_excess:
  assumes "DetectorModel g ty reader = Inr m"
  shows "\<exists>d. get_or as_double (getHeaderConfiguration reader) ''sensor_excess'' 0 = Inr d \<and>
           get_or as_double (getHeaderConfiguration reader) ''sensor_excess_top'' d = Inr (getSensorExcessTop m) \<and>
           get_or as_double (getHeaderConfiguration reader) ''sensor_excess_bottom'' d = Inr (getSensorExcessBottom m) \<and>
           get_or as_double (getHeaderConfiguration reader) ''sensor_excess_left'' d = Inr (getSensorExcessLeft m) \<and>
           get_or as_double (getHeaderConfiguration reader) ''sensor_excess_right'' d = Inr (getSensorExcessRight m)"
proof -
  let ?c = "getHeaderConfiguration reader"
  from DetectorModel_Inr[OF assms] obtain pixel_size m1 implant_size m2 ct where
    s: "ctor_sensor ?c (blank_model ty reader) = Inr (pixel_size, m1)"
    and i: "ctor_implant g ?c pixel_size implant_size m1 = Inr m2"
    and l: "support_loop (reader_getConfigurations_named reader ''support'') (m2\<lparr>m_chip_thickness := ct\<rparr>) = Inr m"
    by blast
  from ctor_sensor_Inr[OF s] obtain n st d t b le r where
    d: "get_or as_double ?c ''sensor_excess'' 0 = Inr d"
    and reads: "get_or as_double ?c ''sensor_excess_top'' d = Inr t"
      "get_or as_double ?c ''sensor_excess_bottom'' d = Inr b"
      "get_or as_double ?c ''sensor_excess_left'' d = Inr le"
      "get_or as_double ?c ''sensor_excess_right'' d = Inr r"
    and m1: "m1 = (blank_model ty reader)\<lparr>m_number_of_pixels := n, m_pixel_size := pixel_size, m_sensor_thickness := st,
              m_sensor_excess_top := t, m_sensor_excess_bottom := b,
              m_sensor_excess_left := le, m_sensor_excess_right := r\<rparr>"
    by blast
  from ctor_implant_Inr[OF i] obtain mat off where
    m2: "m2 = m1\<lparr>m_implant_size := implant_size, m_implant_material := mat, m_implant_offset := off\<rparr>"
    by blast
  from support_loop_Inr[OF l] obtain ls where
    m: "m = (m2\<lparr>m_chip_thickness := ct\<rparr>)\<lparr>m_support_layers := m_support_layers (m2\<lparr>m_chip_thickness := ct\<rparr>) @ ls\<rparr>"
    by blast
  have "getSensorExcessTop m = t" "getSensorExcessBottom m = b"
      "getSensorExcessLeft m = le" "getSensorExcessRight m = r"
    unfolding m m2 m1
    by (simp_all add: getSensorExcessTop_def getSensorExcessBottom_def getSensorExcessLeft_def
        getSensorExcessRight_def)
  with d reads show ?thesis by blast
qed

lemma support_layer_body_Inl:
  assumes "support_layer_body sc m = Inl e"
  shows "(\<exists>k. e = MissingKeyError k \<or> e = InvalidKeyError k) \<or> (\<exists>r. e = InvalidValueError ''location'' r)"
  using assms unfolding support_layer_body_def Let_def
  by (auto simp: bindE_Inl_iff dest!: get_cases get_or_cases split: if_splits)

lemma support_loop_Inl:
  assumes "support_loop scs m = Inl e"
  shows "(\<exists>k. e = MissingKeyError k \<or> e = InvalidKeyError k) \<or> (\<exists>r. e = InvalidValueError ''location'' r)"
  using assms
proof (induction scs arbitrary: m)
  case Nil
  then show ?case by simp
next
  case (Cons sc scs)
  from Cons.prems consider (body) "support_layer_body sc m = Inl e"
    | (rest) m1 where "support_loop scs m1 = Inl e"
    by (auto simp: bindE_Inl_iff)
  then show ?case
  proof cases
    case body
    then show ?thesis by (rule support_layer_body_Inl)
  next
    case rest
    then show ?thesis by (rule Cons.IH)
  qed
qed

lemma ctor_support_Inl:
  assumes "ctor_support config m = Inl e"
  shows "(\<exists>k. e = MissingKeyError k \<or> e = InvalidKeyError k) \<or> (\<exists>r. e = InvalidValueError ''location'' r)"
proof -
  from assms consider (chip) "get_or as_double config ''chip_thickness'' 0 = Inl e"
    | (loop) scs m1 where "support_loop scs m1 = Inl e"
    unfolding ctor_support_def Let_def by (auto simp: bindE_Inl_iff)
  then show ?thesis
  proof cases
    case chip
    from get_or_cases[OF chip] show ?thesis by simp
  next
    case loop
    then show ?thesis by (rule support_loop_Inl)
  qed
qed

lemma DetectorModel_after_implant_size:
  assumes "ctor_sensor (getHeaderConfiguration reader) (blank_model ty reader) = Inr (pixel_size, m1)"
    and "read_implant_size (getHeaderConfiguration reader) pixel_size = Inr implant_size"
  shows "DetectorModel g ty reader =
     bindE (ctor_implant g (getHeaderConfiguration reader) pixel_size implant_size m1)
       (ctor_support (getHeaderConfiguration reader))"
proof -
  have r: "m_reader (blank_model ty reader) = reader"
    by (simp add: blank_model_def)
  show ?thesis
    by (simp add: DetectorModel_def Let_def r assms bindE_simps)
qed

lemma ctor_implant_size_error:
  assumes "X implant_size > x2 pixel_size \<or> Y implant_size > y2 pixel_size \<or>
            Z implant_size > m_sensor_thickness m1"
  shows "\<exists>reason. ctor_implant g config pixel_size implant_size m1 = Inl (InvalidValueError ''implant_size'' reason)"
  using assms by (auto simp: ctor_implant_def getSensorSize_def)

lemma ctor_implant_after_size:
  assumes "X implant_size \<le> x2 pixel_size" "Y implant_size \<le> y2 pixel_size"
      "Z implant_size \<le> m_sensor_thickness m1"
  shows "ctor_implant g config pixel_size implant_size m1 =
        bindE (get_or as_string config ''implant_material'' ''aluminum'') (\<lambda>implant_material.
        bindE (get_or as_XYVector config ''implant_offset'' (XYVector 0 0)) (\<lambda>implant_offset.
        if \<bar>x2 implant_offset\<bar> + X implant_size / 2 > x2 pixel_size / 2 \<or>
           \<bar>y2 implant_offset\<bar> + Y implant_size / 2 > y2 pixel_size / 2
        then Inl (InvalidValueError ''implant_offset''
                    ''implant exceeds pixel cell. Reduce implant size or offset'')
        else Inr (setImplantOffset implant_offset (setImplantMaterial implant_material (setImplantSize implant_size m1)))))"
  using assms by (simp add: ctor_implant_def Let_def getSensorSize_def)

lemma ctor_implant_no_size_error:
  assumes "X implant_size \<le> x2 pixel_size" "Y implant_size \<le> y2 pixel_size"
      "Z implant_size \<le> m_sensor_thickness m1"
  shows "ctor_implant g config pixel_size implant_size m1 \<noteq> Inl (InvalidValueError ''implant_size'' reason)"
  unfolding ctor_implant_after_size[OF assms]
  by (auto simp: bindE_Inl_iff dest!: get_or_cases split: if_splits)

lemma ctor_support_no_implant_error:
  "ctor_support config m2 \<noteq> Inl (InvalidValueError ''implant_size'' reason)"
  "ctor_support config m2 \<noteq> Inl (InvalidValueError ''implant_offset'' reason)"
  using ctor_support_Inl[of config m2 "InvalidValueError ''implant_size'' reason"]
    ctor_support_Inl[of config m2 "InvalidValueError ''implant_offset'' reason"]
  by auto

lemma lowercase_defaults: "lowercase ''chip'' = ''chip''" "lowercase ''g10'' = ''g10''"
  by (simp_all add: lowercase_def tolower_def)

lemma get_present:
  "lookup config key = Some v \<Longrightarrow> as v = Some a \<Longrightarrow> get as config key = Inr a"
  by (simp add: get_def lookup_def)

lemma constructed_layers:
  assumes "DetectorModel g ty reader = Inr m"
  shows "length (m_support_layers m) = length (reader_getConfigurations_named reader ''support'') \<and>
     (\<forall>i<length (reader_getConfigurations_named reader ''support''). \<forall>m0.
        support_layer_body (reader_getConfigurations_named reader ''support'' ! i) m0
          = Inr (m0\<lparr>m_support_layers := m_support_layers m0 @ [m_support_layers m ! i]\<rparr>))"
proof -
  from DetectorModel_Inr[OF assms] obtain m2 ct where
    l: "support_loop (reader_getConfigurations_named reader ''support'') (m2\<lparr>m_chip_thickness := ct\<rparr>) = Inr m"
    and e: "m_support_layers m2 = []"
    by blast
  from support_loop_Inr[OF l] obtain ls where
    len: "length ls = length (reader_getConfigurations_named reader ''support'')"
    and m: "m = (m2\<lparr>m_chip_thickness := ct\<rparr>)\<lparr>m_support_layers := m_support_layers (m2\<lparr>m_chip_thickness := ct\<rparr>) @ ls\<rparr>"
    and ls: "\<forall>i<length (reader_getConfigurations_named reader ''support''). \<forall>m0.
        support_layer_body (reader_getConfigurations_named reader ''support'' ! i) m0
          = Inr (m0\<lparr>m_support_layers := m_support_layers m0 @ [ls ! i]\<rparr>)"
    by blast
  have "m_support_layers m = ls"
    unfolding m using e by simp
  with len ls show ?thesis by simp
qed

lemma support_layer_body_defaults:
  assumes "support_layer_body sc m = Inr m'"
    and "lookup sc ''location'' = None" "lookup sc ''offset'' = None"
    and "lookup sc ''material'' = None" "lookup sc ''hole_size'' = None"
    and "lookup sc ''hole_offset'' = None"
  shows "\<exists>t sz. m' = addSupportLayer sz t (XYZVector 0 0 0) ''g10'' ''chip'' (XYVector 0 0) (XYVector 0 0) m"
proof -
  from support_layer_body_Inr[OF assms(1)] obtain t sz loc off mat hs ho where
    loc: "get_or as_string sc ''location'' ''chip'' = Inr loc"
    and off: "if lowercase loc = ''absolute'' then get as_XYZVector sc ''offset'' = Inr off
       else \<exists>xy. get_or as_XYVector sc ''offset'' (XYVector 0 0) = Inr xy \<and>
                 off = XYZVector (x2 xy) (y2 xy) 0"
    and mat: "get_or as_string sc ''material'' ''g10'' = Inr mat"
    and hs: "get_or as_XYVector sc ''hole_size'' (XYVector 0 0) = Inr hs"
    and ho: "get_or as_XYVector sc ''hole_offset'' (XYVector 0 0) = Inr ho"
    and m': "m' = addSupportLayer sz t off (lowercase mat) (lowercase loc) hs ho m"
    by blast
  from loc get_or_absent[OF assms(2), of as_string "''chip''"] have 1: "loc = ''chip''" by simp
  from mat get_or_absent[OF assms(4), of as_string "''g10''"] have 2: "mat = ''g10''" by simp
  from hs get_or_absent[OF assms(5), of as_XYVector "XYVector 0 0"] have 3: "hs = XYVector 0 0" by simp
  from ho get_or_absent[OF assms(6), of as_XYVector "XYVector 0 0"] have 4: "ho = XYVector 0 0" by simp
  from off get_or_absent[OF assms(3), of as_XYVector "XYVector 0 0"] have 5: "off = XYZVector 0 0 0"
    by (simp add: 1 lowercase_defaults)
  show ?thesis
    unfolding m' 1 2 3 4 5 lowercase_defaults by blast
qed

lemma support_layer_body_invalid_location:
  assumes "get as_double sc ''thickness'' = Inr t" "get as_XYVector sc ''size'' = Inr sz"
    and "get_or as_string sc ''location'' ''chip'' = Inr loc"
    and "lowercase loc \<noteq> ''sensor'' \<and> lowercase loc \<noteq> ''chip'' \<and> lowercase loc \<noteq> ''absolute''"
  shows "\<exists>reason. support_layer_body sc m = Inl (InvalidValueError ''location'' reason)"
  unfolding support_layer_body_def assms(1,2,3) bindE_simps Let_def
  using assms(4) by simp

lemma support_layer_body_absolute_offset:
  assumes "get as_double sc ''thickness'' = Inr t" "get as_XYVector sc ''size'' = Inr sz"
    and "get_or as_string sc ''location'' ''chip'' = Inr loc"
    and "lowercase loc = ''absolute''" and "lookup sc ''offset'' = None"
  shows "support_layer_body sc m = Inl (MissingKeyError ''offset'')"
  unfolding support_layer_body_def assms(1,2,3) bindE_simps Let_def
  by (simp add: assms(4) get_absent[OF assms(5)] bindE_simps)

lemma read_implant_size_caught:
  assumes "get as_XYZVector config ''implant_size'' = Inl e"
  shows "read_implant_size config pixel_size =
     bindE (get_or as_XYVector config ''implant_size'' pixel_size) (\<lambda>implant_area.
       Inr (XYZVector (x2 implant_area) (y2 implant_area) 0))"
  by (simp add: read_implant_size_def assms)

lemma get_fails_iff:
  "(\<exists>e. get as config key = Inl e) \<longleftrightarrow>
     lookup config key = None \<or> (\<exists>v. lookup config key = Some v \<and> as v = None)"
  by (auto simp: get_def lookup_def split: option.splits)

lemma get_wrong_schema:
  "lookup config key = Some v \<Longrightarrow> as v = None \<Longrightarrow> get as config key = Inl (InvalidKeyError key)"
  by (simp add: get_def lookup_def)

lemma get_or_wrong_schema:
  "lookup config key = Some v \<Longrightarrow> as v = None \<Longrightarrow> get_or as config key d = Inl (InvalidKeyError key)"
  by (simp add: get_or_def lookup_def)

lemma DetectorModel_stages:
  "DetectorModel g ty reader =
     bindE (ctor_sensor (getHeaderConfiguration reader) (blank_model ty reader)) (\<lambda>(pixel_size, m).
     bindE (read_implant_size (getHeaderConfiguration reader) pixel_size) (\<lambda>implant_size.
     bindE (ctor_implant g (getHeaderConfiguration reader) pixel_size implant_size m) (\<lambda>m.
     ctor_support (getHeaderConfiguration reader) m)))"
  by (simp add: DetectorModel_def Let_def blank_model_def)

lemmas sensor_defs = ctor_sensor_def blank_model_def setNPixels_def setPixelSize_def
  setSensorThickness_def setSensorExcessTop_def setSensorExcessBottom_def
  setSensorExcessLeft_def setSensorExcessRight_def

lemma stacked_sensor:
  "ctor_sensor (getHeaderConfiguration stacked_reader) (blank_model ''stacked'' stacked_reader)
     = Inr (XYVector 1 1,
            (blank_model ''stacked'' stacked_reader)
              \<lparr>m_number_of_pixels := (2, 2), m_pixel_size := XYVector 1 1, m_sensor_thickness := 3 / 10\<rparr>)"
  by (simp add: sensor_defs get_simps bindE_simps getHeaderConfiguration_def stacked_reader_def
      stacked_header_def Let_def)

lemma oversize_sensor:
  "ctor_sensor (getHeaderConfiguration (only_header oversize_header))
       (blank_model ''oversize'' (only_header oversize_header))
     = Inr (XYVector 1 1,
            (blank_model ''oversize'' (only_header oversize_header))
              \<lparr>m_number_of_pixels := (2, 2), m_pixel_size := XYVector 1 1, m_sensor_thickness := 1\<rparr>)"
  by (simp add: sensor_defs get_simps bindE_simps getHeaderConfiguration_def only_header_def
      oversize_header_def Let_def)

lemma scalar_implant_sensor:
  "ctor_sensor (getHeaderConfiguration (only_header scalar_implant_header))
       (blank_model ''scalar'' (only_header scalar_implant_header))
     = Inr (XYVector 1 1,
            (blank_model ''scalar'' (only_header scalar_implant_header))
              \<lparr>m_number_of_pixels := (2, 2), m_pixel_size := XYVector 1 1, m_sensor_thickness := 1\<rparr>)"
  by (simp add: sensor_defs get_simps bindE_simps getHeaderConfiguration_def only_header_def
      scalar_implant_header_def Let_def)

subsection \<open>The claims\<close>

text \<open>
  C1: \<^verbatim>\<open>getSupportLayers\<close> returns the layers the stacking algorithm of the spec
  places: the declared sequence traversed in order with the sensor offset starting at
  minus half the sensor thickness and the chip offset at half the sensor thickness plus
  the chip thickness; a sensor layer at the sensor offset minus half its thickness, which
  then decreases by the thickness; a chip layer at the chip offset plus half its
  thickness, which then increases by the thickness; any other layer at its declared
  offset; the centre the centre of the model plus the offset.  With sensor thickness 0.3
  and two sensor layers of thickness 1 and 2, the z offsets are -0.65 and -2.15.
\<close>

theorem getSupportLayers_stacking:
  "fst (getSupportLayers g m) =
     stack_layers (getCenter g m) (- m_sensor_thickness m / 2)
       (m_sensor_thickness m / 2 + m_chip_thickness m) (m_support_layers m)
   \<and> (m_sensor_thickness m = 3 / 10 \<and> m_support_layers m = [l1, l2] \<and>
      layer_location l1 = ''sensor'' \<and> layer_location l2 = ''sensor'' \<and>
      Z (layer_size l1) = 1 \<and> Z (layer_size l2) = 2 \<longrightarrow>
      map (\<lambda>l. Z (layer_center l) - Z (getCenter g m)) (fst (getSupportLayers g m))
        = [- 65 / 100, - 215 / 100])"
  by (simp add: getSupportLayers_eq vec_defs)

theorem getSupportLayers_stacking_witness:
  "m_sensor_thickness stacked_model = 3 / 10 \<and>
   map layer_location (m_support_layers stacked_model) = [''sensor'', ''sensor''] \<and>
   map (\<lambda>l. Z (layer_size l)) (m_support_layers stacked_model) = [1, 2] \<and>
   map (\<lambda>l. Z (layer_center l) - Z (getCenter grid_getters stacked_model))
     (fst (getSupportLayers grid_getters stacked_model)) = [- 65 / 100, - 215 / 100]"
proof -
  have "map (\<lambda>l. Z (layer_center l) - Z (getCenter grid_getters stacked_model))
     (fst (getSupportLayers grid_getters stacked_model)) = [- 65 / 100, - 215 / 100]"
    using getSupportLayers_stacking[of grid_getters stacked_model
      "m_support_layers stacked_model ! 0" "m_support_layers stacked_model ! 1"]
    by (simp add: stacked_model_def vec_defs)
  then show ?thesis
    by (simp add: stacked_model_def)
qed

text \<open>
  C2, amended: for two layers of the same location at positions i < j, when the layers
  of that location at the positions from i to j have no negative thickness, the later
  layer is at least as far from the front face of the sensor (location sensor),
  respectively from the back face of the chip (location chip), as the earlier one.  The
  order is not strict: a layer of thickness 0 leaves the next one of its location at the
  same distance, and so does, in the double arithmetic of the source, a positive
  thickness too small to change the running offset.
\<close>

theorem stacking_order:
  assumes "i < j" and "j < length (m_support_layers m)"
    and "layer_location (m_support_layers m ! i) = loc"
    and "layer_location (m_support_layers m ! j) = loc"
    and "\<forall>n. i \<le> n \<and> n \<le> j \<and> layer_location (m_support_layers m ! n) = loc \<longrightarrow>
           0 \<le> Z (layer_size (m_support_layers m ! n))"
  shows "(loc = ''sensor'' \<longrightarrow>
            sensor_side_distance g m (fst (getSupportLayers g m) ! i)
              \<le> sensor_side_distance g m (fst (getSupportLayers g m) ! j))
       \<and> (loc = ''chip'' \<longrightarrow>
            chip_side_distance g m (fst (getSupportLayers g m) ! i)
              \<le> chip_side_distance g m (fst (getSupportLayers g m) ! j))"
proof (intro conjI impI)
  assume "loc = ''sensor''"
  with assms show "sensor_side_distance g m (fst (getSupportLayers g m) ! i)
      \<le> sensor_side_distance g m (fst (getSupportLayers g m) ! j)"
    unfolding sensor_side_distance_def getSupportLayers_eq fst_conv
    using stack_sensor_order[of i j "m_support_layers m"] by simp
next
  assume "loc = ''chip''"
  with assms show "chip_side_distance g m (fst (getSupportLayers g m) ! i)
      \<le> chip_side_distance g m (fst (getSupportLayers g m) ! j)"
    unfolding chip_side_distance_def getSupportLayers_eq fst_conv
    using stack_chip_order[of i j "m_support_layers m"] by simp
qed

theorem stacking_order_witness:
  "DetectorModel grid_getters ''sandwich'' sandwich_reader = Inr sandwich_model \<and>
   map layer_location (m_support_layers sandwich_model) = [''sensor'', ''chip'', ''sensor'', ''chip''] \<and>
   map (\<lambda>l. Z (layer_size l)) (m_support_layers sandwich_model) = [1, 1, 0, 2] \<and>
   sensor_side_distance grid_getters sandwich_model (fst (getSupportLayers grid_getters sandwich_model) ! 0)
     \<le> sensor_side_distance grid_getters sandwich_model (fst (getSupportLayers grid_getters sandwich_model) ! 2) \<and>
   chip_side_distance grid_getters sandwich_model (fst (getSupportLayers grid_getters sandwich_model) ! 1)
     \<le> chip_side_distance grid_getters sandwich_model (fst (getSupportLayers grid_getters sandwich_model) ! 3)"
proof -
  have locs: "map layer_location (m_support_layers sandwich_model) = [''sensor'', ''chip'', ''sensor'', ''chip'']"
    and sizes: "map (\<lambda>l. Z (layer_size l)) (m_support_layers sandwich_model) = [1, 1, 0, 2]"
    by (simp_all add: sandwich_model_def)
  have len: "(2::nat) < length (m_support_layers sandwich_model)" "(3::nat) < length (m_support_layers sandwich_model)"
    by (simp_all add: sandwich_model_def)
  have thick: "0 \<le> Z (layer_size (m_support_layers sandwich_model ! n))" if "n \<le> 3" for n
  proof -
    from that consider "n = 0" | "n = 1" | "n = 2" | "n = 3" by linarith
    then show ?thesis by cases (simp_all add: sandwich_model_def)
  qed
  have sensor: "sensor_side_distance grid_getters sandwich_model (fst (getSupportLayers grid_getters sandwich_model) ! 0)
     \<le> sensor_side_distance grid_getters sandwich_model (fst (getSupportLayers grid_getters sandwich_model) ! 2)"
  proof (rule stacking_order[of 0 2 sandwich_model "''sensor''" grid_getters, THEN conjunct1, THEN mp])
    show "(0::nat) < 2" by simp
    show "2 < length (m_support_layers sandwich_model)" by (rule len)
    show "layer_location (m_support_layers sandwich_model ! 0) = ''sensor''"
      "layer_location (m_support_layers sandwich_model ! 2) = ''sensor''"
      by (simp_all add: sandwich_model_def)
    show "\<forall>n. 0 \<le> n \<and> n \<le> 2 \<and> layer_location (m_support_layers sandwich_model ! n) = ''sensor'' \<longrightarrow>
           0 \<le> Z (layer_size (m_support_layers sandwich_model ! n))"
      using thick by simp
  qed simp
  have chip: "chip_side_distance grid_getters sandwich_model (fst (getSupportLayers grid_getters sandwich_model) ! 1)
     \<le> chip_side_distance grid_getters sandwich_model (fst (getSupportLayers grid_getters sandwich_model) ! 3)"
  proof (rule stacking_order[of 1 3 sandwich_model "''chip''" grid_getters, THEN conjunct2, THEN mp])
    show "(1::nat) < 3" by simp
    show "3 < length (m_support_layers sandwich_model)" by (rule len)
    show "layer_location (m_support_layers sandwich_model ! 1) = ''chip''"
      "layer_location (m_support_layers sandwich_model ! 3) = ''chip''"
      by (simp_all add: sandwich_model_def)
    show "\<forall>n. 1 \<le> n \<and> n \<le> 3 \<and> layer_location (m_support_layers sandwich_model ! n) = ''chip'' \<longrightarrow>
           0 \<le> Z (layer_size (m_support_layers sandwich_model ! n))"
      using thick by simp
  qed simp
  from sandwich_constructed locs sizes sensor chip show ?thesis by blast
qed

text \<open>
  C2 as stated fails: the constructor accepts support layers of thickness 0, and two
  such layers on the sensor side are placed at the same distance.
\<close>

theorem stacking_order_counterexample:
  "DetectorModel grid_getters ''flat'' flat_reader = Inr flat_model \<and>
   layer_location (m_support_layers flat_model ! 0) = ''sensor'' \<and>
   layer_location (m_support_layers flat_model ! 1) = ''sensor'' \<and>
   sensor_side_distance grid_getters flat_model (fst (getSupportLayers grid_getters flat_model) ! 1)
     = sensor_side_distance grid_getters flat_model (fst (getSupportLayers grid_getters flat_model) ! 0)"
proof (intro conjI)
  show "DetectorModel grid_getters ''flat'' flat_reader = Inr flat_model"
    by (simp add: ctor_defs get_simps bindE_simps flat_reader_def flat_header_def
      flat_model_def Let_def lowercase_def tolower_def)
qed (simp_all add: getSupportLayers_eq sensor_side_distance_def flat_model_def vec_defs)

text \<open>
  C3: when the corners of the sensor are of the magnitude of a finite double (as every
  double but an infinity is), the x and y components of \<^verbatim>\<open>getSize()\<close> are twice the
  larger of max corner minus centre and centre minus min corner, the z component is the
  sum of the two one-sided extents, and the corners are the extrema over the sensor, the
  chip and every support layer; with no support layer the elements are the sensor and the
  chip alone.
\<close>

theorem getSize_envelope:
  assumes "in_double_range (box_hi (getSensorCenter g m, getSensorSize g m))"
    and "in_double_range (box_lo (getSensorCenter g m, getSensorSize g m))"
  shows "fst (getSize g m) =
      XYZVector
        (2 * max (X (max_corner (elements g m)) - X (getCenter g m))
                 (X (getCenter g m) - X (min_corner (elements g m))))
        (2 * max (Y (max_corner (elements g m)) - Y (getCenter g m))
                 (Y (getCenter g m) - Y (min_corner (elements g m))))
        ((Z (max_corner (elements g m)) - Z (getCenter g m)) +
         (Z (getCenter g m) - Z (min_corner (elements g m))))
    \<and> (m_support_layers m = [] \<longrightarrow>
         elements g m = [(getSensorCenter g m, getSensorSize g m), (getChipCenter g m, getChipSize g m)])"
proof
  show "fst (getSize g m) =
      XYZVector
        (2 * max (X (max_corner (elements g m)) - X (getCenter g m))
                 (X (getCenter g m) - X (min_corner (elements g m))))
        (2 * max (Y (max_corner (elements g m)) - Y (getCenter g m))
                 (Y (getCenter g m) - Y (min_corner (elements g m))))
        ((Z (max_corner (elements g m)) - Z (getCenter g m)) +
         (Z (getCenter g m) - Z (min_corner (elements g m))))"
    unfolding getSize_eq fst_conv corners_in_range[OF assms] snd_conv ..
  show "m_support_layers m = [] \<longrightarrow>
         elements g m = [(getSensorCenter g m, getSensorSize g m), (getChipCenter g m, getChipSize g m)]"
    by (simp add: elements_def getSupportLayers_eq)
qed

theorem getSize_envelope_witness:
  "in_double_range (box_hi (getSensorCenter grid_getters stacked_model, getSensorSize grid_getters stacked_model)) \<and>
   in_double_range (box_lo (getSensorCenter grid_getters stacked_model, getSensorSize grid_getters stacked_model)) \<and>
   fst (getSize grid_getters stacked_model) = XYZVector 2 2 (33 / 10)"
proof -
  have hi: "in_double_range (box_hi (getSensorCenter grid_getters stacked_model, getSensorSize grid_getters stacked_model))"
    by (simp add: in_double_range_def box_hi_def vec_defs grid_getters_def stacked_model_def
        getSensorSize_def DBL_MAX_def DBL_LOWEST_def)
  have lo: "in_double_range (box_lo (getSensorCenter grid_getters stacked_model, getSensorSize grid_getters stacked_model))"
    by (simp add: in_double_range_def box_lo_def vec_defs grid_getters_def stacked_model_def
        getSensorSize_def DBL_MAX_def DBL_LOWEST_def)
  have c: "getCenter grid_getters stacked_model = XYZVector (1/2) (1/2) 0"
    by (simp add: grid_getters_def stacked_model_def)
  have "fst (getSize grid_getters stacked_model) = XYZVector 2 2 (33 / 10)"
    using getSize_envelope[OF hi lo]
    by (simp add: stacked_elements c max_corner_def min_corner_def box_hi_def box_lo_def vec_defs)
  with hi lo show ?thesis by simp
qed

text \<open>
  C4: once the sensor keys are read and the implant size is resolved, construction fails
  with an InvalidValue error that names \<^verbatim>\<open>implant_size\<close> exactly when the size exceeds
  the pixel size in x or y or the sensor thickness in z; when the size is within these
  bounds and the implant material and offset are read, it fails with an InvalidValue error
  that names \<^verbatim>\<open>implant_offset\<close> exactly when the offset plus half the size exceeds half
  the pixel size in x or y (the checks run in source order, so an oversized implant is
  reported under \<^verbatim>\<open>implant_size\<close>).  The bounds are inclusive: an implant of the size of
  the pixel at offset (0, 0) passes both checks, and construction goes on to the chip and
  the support layers.
\<close>

theorem implant_bounds:
  assumes "ctor_sensor (getHeaderConfiguration reader) (blank_model ty reader) = Inr (pixel_size, m1)"
    and "read_implant_size (getHeaderConfiguration reader) pixel_size = Inr implant_size"
  shows "((\<exists>reason. DetectorModel g ty reader = Inl (InvalidValueError ''implant_size'' reason)) \<longleftrightarrow>
            X implant_size > x2 pixel_size \<or> Y implant_size > y2 pixel_size \<or>
            Z implant_size > m_sensor_thickness m1)
       \<and> (X implant_size \<le> x2 pixel_size \<and> Y implant_size \<le> y2 pixel_size \<and>
          Z implant_size \<le> m_sensor_thickness m1 \<and>
          get_or as_string (getHeaderConfiguration reader) ''implant_material'' ''aluminum'' = Inr material \<and>
          get_or as_XYVector (getHeaderConfiguration reader) ''implant_offset'' (XYVector 0 0) = Inr implant_offset \<longrightarrow>
          ((\<exists>reason. DetectorModel g ty reader = Inl (InvalidValueError ''implant_offset'' reason)) \<longleftrightarrow>
             \<bar>x2 implant_offset\<bar> + X implant_size / 2 > x2 pixel_size / 2 \<or>
             \<bar>y2 implant_offset\<bar> + Y implant_size / 2 > y2 pixel_size / 2))
       \<and> (X implant_size = x2 pixel_size \<and> Y implant_size = y2 pixel_size \<and>
          Z implant_size \<le> m_sensor_thickness m1 \<and>
          get_or as_string (getHeaderConfiguration reader) ''implant_material'' ''aluminum'' = Inr material \<and>
          get_or as_XYVector (getHeaderConfiguration reader) ''implant_offset'' (XYVector 0 0) = Inr (XYVector 0 0) \<longrightarrow>
          DetectorModel g ty reader =
            ctor_support (getHeaderConfiguration reader)
              (setImplantOffset (XYVector 0 0) (setImplantMaterial material (setImplantSize implant_size m1))))"
proof (intro conjI impI)
  let ?c = "getHeaderConfiguration reader"
  let ?big = "X implant_size > x2 pixel_size \<or> Y implant_size > y2 pixel_size \<or>
            Z implant_size > m_sensor_thickness m1"
  note run = DetectorModel_after_implant_size[OF assms, of g]
  show "(\<exists>reason. DetectorModel g ty reader = Inl (InvalidValueError ''implant_size'' reason)) \<longleftrightarrow> ?big"
  proof (cases ?big)
    case True
    from ctor_implant_size_error[OF True, of g ?c] obtain reason where
      "ctor_implant g ?c pixel_size implant_size m1 = Inl (InvalidValueError ''implant_size'' reason)"
      by blast
    then have "DetectorModel g ty reader = Inl (InvalidValueError ''implant_size'' reason)"
      unfolding run by (simp add: bindE_simps)
    with True show ?thesis by blast
  next
    case False
    then have ok: "X implant_size \<le> x2 pixel_size" "Y implant_size \<le> y2 pixel_size"
      "Z implant_size \<le> m_sensor_thickness m1"
      by simp_all
    have "DetectorModel g ty reader \<noteq> Inl (InvalidValueError ''implant_size'' reason)" for reason
      unfolding run bindE_Inl_iff
      using ctor_implant_no_size_error[OF ok, of g ?c reason]
        ctor_support_no_implant_error(1)[of ?c _ reason]
      by blast
    with False show ?thesis by blast
  qed
next
  let ?c = "getHeaderConfiguration reader"
  note run = DetectorModel_after_implant_size[OF assms, of g]
  assume a: "X implant_size \<le> x2 pixel_size \<and> Y implant_size \<le> y2 pixel_size \<and>
          Z implant_size \<le> m_sensor_thickness m1 \<and>
          get_or as_string ?c ''implant_material'' ''aluminum'' = Inr material \<and>
          get_or as_XYVector ?c ''implant_offset'' (XYVector 0 0) = Inr implant_offset"
  then have ok: "X implant_size \<le> x2 pixel_size" "Y implant_size \<le> y2 pixel_size"
      "Z implant_size \<le> m_sensor_thickness m1"
    and mat: "get_or as_string ?c ''implant_material'' ''aluminum'' = Inr material"
    and off: "get_or as_XYVector ?c ''implant_offset'' (XYVector 0 0) = Inr implant_offset"
    by simp_all
  let ?out = "\<bar>x2 implant_offset\<bar> + X implant_size / 2 > x2 pixel_size / 2 \<or>
             \<bar>y2 implant_offset\<bar> + Y implant_size / 2 > y2 pixel_size / 2"
  have impl: "ctor_implant g ?c pixel_size implant_size m1 =
        (if ?out
         then Inl (InvalidValueError ''implant_offset''
                    ''implant exceeds pixel cell. Reduce implant size or offset'')
         else Inr (setImplantOffset implant_offset (setImplantMaterial material (setImplantSize implant_size m1))))"
    unfolding ctor_implant_after_size[OF ok] mat off bindE_simps ..
  show "(\<exists>reason. DetectorModel g ty reader = Inl (InvalidValueError ''implant_offset'' reason)) \<longleftrightarrow> ?out"
  proof (cases ?out)
    case True
    then have "DetectorModel g ty reader = Inl (InvalidValueError ''implant_offset''
                    ''implant exceeds pixel cell. Reduce implant size or offset'')"
      unfolding run impl by (simp add: bindE_simps)
    with True show ?thesis by blast
  next
    case False
    then have "DetectorModel g ty reader = ctor_support ?c
        (setImplantOffset implant_offset (setImplantMaterial material (setImplantSize implant_size m1)))"
      unfolding run impl by (simp add: bindE_simps)
    with False ctor_support_no_implant_error(2)[of ?c] show ?thesis by simp
  qed
next
  let ?c = "getHeaderConfiguration reader"
  note run = DetectorModel_after_implant_size[OF assms, of g]
  assume a: "X implant_size = x2 pixel_size \<and> Y implant_size = y2 pixel_size \<and>
          Z implant_size \<le> m_sensor_thickness m1 \<and>
          get_or as_string ?c ''implant_material'' ''aluminum'' = Inr material \<and>
          get_or as_XYVector ?c ''implant_offset'' (XYVector 0 0) = Inr (XYVector 0 0)"
  then have ok: "X implant_size \<le> x2 pixel_size" "Y implant_size \<le> y2 pixel_size"
      "Z implant_size \<le> m_sensor_thickness m1"
    and eq: "X implant_size = x2 pixel_size" "Y implant_size = y2 pixel_size"
    and mat: "get_or as_string ?c ''implant_material'' ''aluminum'' = Inr material"
    and off: "get_or as_XYVector ?c ''implant_offset'' (XYVector 0 0) = Inr (XYVector 0 0)"
    by simp_all
  show "DetectorModel g ty reader =
            ctor_support ?c (setImplantOffset (XYVector 0 0) (setImplantMaterial material (setImplantSize implant_size m1)))"
    unfolding run ctor_implant_after_size[OF ok] mat off bindE_simps
    by (simp add: eq bindE_simps)
qed

theorem implant_bounds_witness:
  "read_implant_size (getHeaderConfiguration (only_header oversize_header)) (XYVector 1 1)
     = Inr (XYZVector 2 1 0)
 \<and> (\<exists>reason. DetectorModel grid_getters ''oversize'' (only_header oversize_header)
       = Inl (InvalidValueError ''implant_size'' reason))
 \<and> read_implant_size (getHeaderConfiguration stacked_reader) (XYVector 1 1) = Inr (XYZVector 1 1 0)
 \<and> DetectorModel grid_getters ''stacked'' stacked_reader = Inr stacked_model"
proof -
  have r1: "read_implant_size (getHeaderConfiguration (only_header oversize_header)) (XYVector 1 1)
     = Inr (XYZVector 2 1 0)"
    by (simp add: read_implant_size_def get_simps getHeaderConfiguration_def only_header_def
        oversize_header_def)
  have e1: "\<exists>reason. DetectorModel grid_getters ''oversize'' (only_header oversize_header)
       = Inl (InvalidValueError ''implant_size'' reason)"
    by (rule implant_bounds[OF oversize_sensor r1, THEN conjunct1, THEN iffD2]) simp
  have r2: "read_implant_size (getHeaderConfiguration stacked_reader) (XYVector 1 1) = Inr (XYZVector 1 1 0)"
    by (simp add: read_implant_size_def get_simps bindE_simps getHeaderConfiguration_def
        stacked_reader_def stacked_header_def)
  have "DetectorModel grid_getters ''stacked'' stacked_reader =
      ctor_support (getHeaderConfiguration stacked_reader)
        (setImplantOffset (XYVector 0 0) (setImplantMaterial ''aluminum'' (setImplantSize (XYZVector 1 1 0)
          ((blank_model ''stacked'' stacked_reader)
              \<lparr>m_number_of_pixels := (2, 2), m_pixel_size := XYVector 1 1, m_sensor_thickness := 3 / 10\<rparr>))))"
    by (rule implant_bounds[OF stacked_sensor r2, THEN conjunct2, THEN conjunct2, THEN mp])
       (simp add: get_simps getHeaderConfiguration_def stacked_reader_def stacked_header_def)
  also have "\<dots> = Inr stacked_model"
    by (simp add: ctor_support_def support_layer_body_def reader_getConfigurations_named_def
        setter_defs addSupportLayer_def blank_model_def get_simps bindE_simps
        getHeaderConfiguration_def stacked_reader_def stacked_header_def stacked_model_def
        Let_def lowercase_def tolower_def)
  finally show ?thesis using r1 e1 r2 by blast
qed

text \<open>
  C5: the one error caught is that of the 3D read of \<^verbatim>\<open>implant_size\<close>, which fails
  exactly when the key is absent or its value is not a 3-component vector; the
  constructor then reads a 2D vector that defaults to the pixel size and sets z to 0.  An
  absent key gives the pixel size, a 2D value gives that area, and any other value makes
  the second read fail, which is not caught.  Every error a part of the constructor
  returns is what the constructor returns, the loop over the support sections stops at
  the first section that fails, and an absent \<^verbatim>\<open>number_of_pixels\<close> is reported as such.
\<close>

theorem implant_size_fallback:
  "(get as_XYZVector config ''implant_size'' = Inr v \<longrightarrow> read_implant_size config pixel_size = Inr v)
 \<and> ((\<exists>e. get as_XYZVector config ''implant_size'' = Inl e) \<longleftrightarrow>
      lookup config ''implant_size'' = None \<or>
      (\<exists>v. lookup config ''implant_size'' = Some v \<and> as_XYZVector v = None))
 \<and> (get as_XYZVector config ''implant_size'' = Inl e \<longrightarrow>
      read_implant_size config pixel_size =
        bindE (get_or as_XYVector config ''implant_size'' pixel_size) (\<lambda>implant_area.
          Inr (XYZVector (x2 implant_area) (y2 implant_area) 0)))
 \<and> (lookup config ''implant_size'' = None \<longrightarrow>
      read_implant_size config pixel_size = Inr (XYZVector (x2 pixel_size) (y2 pixel_size) 0))
 \<and> (lookup config ''implant_size'' = Some (VXY a) \<longrightarrow>
      read_implant_size config pixel_size = Inr (XYZVector (x2 a) (y2 a) 0))
 \<and> (lookup config ''implant_size'' = Some w \<and> as_XYZVector w = None \<and> as_XYVector w = None \<longrightarrow>
      read_implant_size config pixel_size = Inl (InvalidKeyError ''implant_size''))
 \<and> (ctor_sensor (getHeaderConfiguration reader) (blank_model ty reader) = Inl e \<longrightarrow>
      DetectorModel g ty reader = Inl e)
 \<and> (ctor_sensor (getHeaderConfiguration reader) (blank_model ty reader) = Inr (ps, m1) \<and>
    read_implant_size (getHeaderConfiguration reader) ps = Inl e \<longrightarrow>
      DetectorModel g ty reader = Inl e)
 \<and> (ctor_sensor (getHeaderConfiguration reader) (blank_model ty reader) = Inr (ps, m1) \<and>
    read_implant_size (getHeaderConfiguration reader) ps = Inr implant_size \<and>
    ctor_implant g (getHeaderConfiguration reader) ps implant_size m1 = Inl e \<longrightarrow>
      DetectorModel g ty reader = Inl e)
 \<and> (ctor_sensor (getHeaderConfiguration reader) (blank_model ty reader) = Inr (ps, m1) \<and>
    read_implant_size (getHeaderConfiguration reader) ps = Inr implant_size \<and>
    ctor_implant g (getHeaderConfiguration reader) ps implant_size m1 = Inr m2 \<and>
    ctor_support (getHeaderConfiguration reader) m2 = Inl e \<longrightarrow>
      DetectorModel g ty reader = Inl e)
 \<and> (support_loop before m = Inr m' \<and> support_layer_body sc m' = Inl e \<longrightarrow>
      support_loop (before @ sc # after) m = Inl e)
 \<and> (lookup (getHeaderConfiguration reader) ''number_of_pixels'' = None \<longrightarrow>
      DetectorModel g ty reader = Inl (MissingKeyError ''number_of_pixels''))"
proof (intro conjI impI)
  show "read_implant_size config pixel_size = Inr v"
    if "get as_XYZVector config ''implant_size'' = Inr v"
    using that by (simp add: read_implant_size_def)
  show "(\<exists>e. get as_XYZVector config ''implant_size'' = Inl e) \<longleftrightarrow>
      lookup config ''implant_size'' = None \<or>
      (\<exists>v. lookup config ''implant_size'' = Some v \<and> as_XYZVector v = None)"
    by (rule get_fails_iff)
  show "read_implant_size config pixel_size =
        bindE (get_or as_XYVector config ''implant_size'' pixel_size) (\<lambda>implant_area.
          Inr (XYZVector (x2 implant_area) (y2 implant_area) 0))"
    if "get as_XYZVector config ''implant_size'' = Inl e"
    using that by (rule read_implant_size_caught)
  show "read_implant_size config pixel_size = Inr (XYZVector (x2 pixel_size) (y2 pixel_size) 0)"
    if "lookup config ''implant_size'' = None"
    unfolding read_implant_size_caught[OF get_absent[OF that]] get_or_absent[OF that] bindE_simps ..
  show "read_implant_size config pixel_size = Inr (XYZVector (x2 a) (y2 a) 0)"
    if "lookup config ''implant_size'' = Some (VXY a)"
  proof -
    have "get as_XYZVector config ''implant_size'' = Inl (InvalidKeyError ''implant_size'')"
      by (rule get_wrong_schema[OF that]) simp
    moreover have "get_or as_XYVector config ''implant_size'' pixel_size = Inr a"
      by (rule get_or_present[OF that]) simp
    ultimately show ?thesis
      by (simp add: read_implant_size_def bindE_simps)
  qed
  show "read_implant_size config pixel_size = Inl (InvalidKeyError ''implant_size'')"
    if "lookup config ''implant_size'' = Some w \<and> as_XYZVector w = None \<and> as_XYVector w = None"
  proof -
    from that have "get as_XYZVector config ''implant_size'' = Inl (InvalidKeyError ''implant_size'')"
      "get_or as_XYVector config ''implant_size'' pixel_size = Inl (InvalidKeyError ''implant_size'')"
      by (simp_all add: get_wrong_schema get_or_wrong_schema)
    then show ?thesis
      by (simp add: read_implant_size_def bindE_simps)
  qed
  show "DetectorModel g ty reader = Inl e"
    if "ctor_sensor (getHeaderConfiguration reader) (blank_model ty reader) = Inl e"
    unfolding DetectorModel_stages that bindE_simps ..
  show "DetectorModel g ty reader = Inl e"
    if "ctor_sensor (getHeaderConfiguration reader) (blank_model ty reader) = Inr (ps, m1) \<and>
      read_implant_size (getHeaderConfiguration reader) ps = Inl e"
    unfolding DetectorModel_stages using that by (simp add: bindE_simps)
  show "DetectorModel g ty reader = Inl e"
    if "ctor_sensor (getHeaderConfiguration reader) (blank_model ty reader) = Inr (ps, m1) \<and>
      read_implant_size (getHeaderConfiguration reader) ps = Inr implant_size \<and>
      ctor_implant g (getHeaderConfiguration reader) ps implant_size m1 = Inl e"
    unfolding DetectorModel_stages using that by (simp add: bindE_simps)
  show "DetectorModel g ty reader = Inl e"
    if "ctor_sensor (getHeaderConfiguration reader) (blank_model ty reader) = Inr (ps, m1) \<and>
      read_implant_size (getHeaderConfiguration reader) ps = Inr implant_size \<and>
      ctor_implant g (getHeaderConfiguration reader) ps implant_size m1 = Inr m2 \<and>
      ctor_support (getHeaderConfiguration reader) m2 = Inl e"
    unfolding DetectorModel_stages using that by (simp add: bindE_simps)
  show "support_loop (before @ sc # after) m = Inl e"
    if "support_loop before m = Inr m' \<and> support_layer_body sc m' = Inl e"
    using that support_loop_stops[of before m m' sc e after] by blast
  show "DetectorModel g ty reader = Inl (MissingKeyError ''number_of_pixels'')"
    if "lookup (getHeaderConfiguration reader) ''number_of_pixels'' = None"
    unfolding DetectorModel_stages ctor_sensor_def get_absent[OF that] bindE_simps ..
qed

theorem implant_size_fallback_witness:
  "lookup stacked_header ''implant_size'' = None
 \<and> read_implant_size stacked_header (XYVector 1 1) = Inr (XYZVector 1 1 0)
 \<and> lookup flat_implant_header ''implant_size'' = Some (VXY (XYVector (1 / 2) (1 / 2)))
 \<and> read_implant_size flat_implant_header (XYVector 1 1) = Inr (XYZVector (1 / 2) (1 / 2) 0)
 \<and> lookup scalar_implant_header ''implant_size'' = Some (VDouble 1)
 \<and> read_implant_size scalar_implant_header (XYVector 1 1) = Inl (InvalidKeyError ''implant_size'')
 \<and> DetectorModel grid_getters ''scalar'' (only_header scalar_implant_header)
      = Inl (InvalidKeyError ''implant_size'')"
proof -
  have a: "lookup stacked_header ''implant_size'' = None"
    by (simp add: lookup_def stacked_header_def)
  have b: "lookup flat_implant_header ''implant_size'' = Some (VXY (XYVector (1 / 2) (1 / 2)))"
    by (simp add: lookup_def flat_implant_header_def)
  have c: "lookup scalar_implant_header ''implant_size'' = Some (VDouble 1)"
    by (simp add: lookup_def scalar_implant_header_def)
  have ra: "read_implant_size stacked_header (XYVector 1 1) = Inr (XYZVector 1 1 0)"
    using implant_size_fallback[of stacked_header _ "XYVector 1 1",
        THEN conjunct2, THEN conjunct2, THEN conjunct2, THEN conjunct1, THEN mp, OF a]
    by simp
  have rb: "read_implant_size flat_implant_header (XYVector 1 1) = Inr (XYZVector (1 / 2) (1 / 2) 0)"
    using implant_size_fallback[of flat_implant_header _ "XYVector 1 1" _ "XYVector (1 / 2) (1 / 2)",
        THEN conjunct2, THEN conjunct2, THEN conjunct2, THEN conjunct2, THEN conjunct1, THEN mp, OF b]
    by simp
  have rc: "read_implant_size scalar_implant_header (XYVector 1 1) = Inl (InvalidKeyError ''implant_size'')"
    by (rule implant_size_fallback[of scalar_implant_header _ "XYVector 1 1" _ _ "VDouble 1",
        THEN conjunct2, THEN conjunct2, THEN conjunct2, THEN conjunct2, THEN conjunct2,
        THEN conjunct1, THEN mp])
       (simp add: c)
  have h: "getHeaderConfiguration (only_header scalar_implant_header) = scalar_implant_header"
    by (simp add: getHeaderConfiguration_def only_header_def)
  have rc': "read_implant_size (getHeaderConfiguration (only_header scalar_implant_header)) (XYVector 1 1)
      = Inl (InvalidKeyError ''implant_size'')"
    unfolding h by (rule rc)
  have "DetectorModel grid_getters ''scalar'' (only_header scalar_implant_header)
      = Inl (InvalidKeyError ''implant_size'')"
    by (rule implant_size_fallback[of _ _ _ "InvalidKeyError ''implant_size''" _ _
          "only_header scalar_implant_header" "''scalar''" grid_getters "XYVector 1 1",
        THEN conjunct2, THEN conjunct2, THEN conjunct2, THEN conjunct2, THEN conjunct2,
        THEN conjunct2, THEN conjunct2, THEN conjunct1, THEN mp,
        OF conjI[OF scalar_implant_sensor rc']])
  with a b c ra rb rc show ?thesis by blast
qed

text \<open>
  C6: reading a support section fails when thickness or size is absent, fails with the
  InvalidValue error on \<^verbatim>\<open>location\<close> (the spec's InvalidEnumValue) when the lower-cased
  location is not sensor, chip or absolute, and fails when the location is absolute and
  no offset is given.  A section that is read appends one layer whose location is the
  lower-cased value read with default chip, whose offset is the 3D vector read for
  absolute and otherwise the 2D vector read with default zero and z = 0, whose material is
  the lower-cased value read with default g10, and whose hole size and hole offset
  default to zero.  The layers of a constructed model are those of the support sections,
  one per section, in declaration order.
\<close>

theorem support_sections:
  "(lookup sc ''thickness'' = None \<longrightarrow> support_layer_body sc m = Inl (MissingKeyError ''thickness''))
 \<and> (get as_double sc ''thickness'' = Inr t \<and> lookup sc ''size'' = None \<longrightarrow>
      support_layer_body sc m = Inl (MissingKeyError ''size''))
 \<and> (get as_double sc ''thickness'' = Inr t \<and> get as_XYVector sc ''size'' = Inr sz \<and>
    get_or as_string sc ''location'' ''chip'' = Inr loc \<and>
    lowercase loc \<noteq> ''sensor'' \<and> lowercase loc \<noteq> ''chip'' \<and> lowercase loc \<noteq> ''absolute'' \<longrightarrow>
      (\<exists>reason. support_layer_body sc m = Inl (InvalidValueError ''location'' reason)))
 \<and> (get as_double sc ''thickness'' = Inr t \<and> get as_XYVector sc ''size'' = Inr sz \<and>
    get_or as_string sc ''location'' ''chip'' = Inr loc \<and>
    lowercase loc = ''absolute'' \<and> lookup sc ''offset'' = None \<longrightarrow>
      support_layer_body sc m = Inl (MissingKeyError ''offset''))
 \<and> (support_layer_body sc m = Inr m' \<longrightarrow>
      (\<exists>t sz loc off mat hs ho.
        get as_double sc ''thickness'' = Inr t \<and>
        get as_XYVector sc ''size'' = Inr sz \<and>
        get_or as_string sc ''location'' ''chip'' = Inr loc \<and>
        (lowercase loc = ''sensor'' \<or> lowercase loc = ''chip'' \<or> lowercase loc = ''absolute'') \<and>
        (if lowercase loc = ''absolute'' then get as_XYZVector sc ''offset'' = Inr off
         else \<exists>xy. get_or as_XYVector sc ''offset'' (XYVector 0 0) = Inr xy \<and>
                   off = XYZVector (x2 xy) (y2 xy) 0) \<and>
        get_or as_string sc ''material'' ''g10'' = Inr mat \<and>
        get_or as_XYVector sc ''hole_size'' (XYVector 0 0) = Inr hs \<and>
        get_or as_XYVector sc ''hole_offset'' (XYVector 0 0) = Inr ho \<and>
        m' = addSupportLayer sz t off (lowercase mat) (lowercase loc) hs ho m))
 \<and> (support_layer_body sc m = Inr m' \<and>
    lookup sc ''location'' = None \<and> lookup sc ''offset'' = None \<and>
    lookup sc ''material'' = None \<and> lookup sc ''hole_size'' = None \<and>
    lookup sc ''hole_offset'' = None \<longrightarrow>
      (\<exists>t sz. m' = addSupportLayer sz t (XYZVector 0 0 0) ''g10'' ''chip'' (XYVector 0 0) (XYVector 0 0) m))
 \<and> (DetectorModel g ty reader = Inr dm \<longrightarrow>
      length (m_support_layers dm) = length (reader_getConfigurations_named reader ''support'') \<and>
      (\<forall>i<length (reader_getConfigurations_named reader ''support''). \<forall>m0.
         support_layer_body (reader_getConfigurations_named reader ''support'' ! i) m0
           = Inr (m0\<lparr>m_support_layers := m_support_layers m0 @ [m_support_layers dm ! i]\<rparr>)))"
proof (intro conjI impI)
  assume "lookup sc ''thickness'' = None"
  then show "support_layer_body sc m = Inl (MissingKeyError ''thickness'')"
    by (simp add: support_layer_body_def get_absent bindE_simps)
next
  assume "get as_double sc ''thickness'' = Inr t \<and> lookup sc ''size'' = None"
  then show "support_layer_body sc m = Inl (MissingKeyError ''size'')"
    by (simp add: support_layer_body_def get_absent bindE_simps)
next
  assume "get as_double sc ''thickness'' = Inr t \<and> get as_XYVector sc ''size'' = Inr sz \<and>
    get_or as_string sc ''location'' ''chip'' = Inr loc \<and>
    lowercase loc \<noteq> ''sensor'' \<and> lowercase loc \<noteq> ''chip'' \<and> lowercase loc \<noteq> ''absolute''"
  then show "\<exists>reason. support_layer_body sc m = Inl (InvalidValueError ''location'' reason)"
    using support_layer_body_invalid_location[of sc t sz loc m] by blast
next
  assume "get as_double sc ''thickness'' = Inr t \<and> get as_XYVector sc ''size'' = Inr sz \<and>
    get_or as_string sc ''location'' ''chip'' = Inr loc \<and>
    lowercase loc = ''absolute'' \<and> lookup sc ''offset'' = None"
  then show "support_layer_body sc m = Inl (MissingKeyError ''offset'')"
    using support_layer_body_absolute_offset[of sc t sz loc m] by blast
next
  assume "support_layer_body sc m = Inr m'"
  then show "\<exists>t sz loc off mat hs ho.
        get as_double sc ''thickness'' = Inr t \<and>
        get as_XYVector sc ''size'' = Inr sz \<and>
        get_or as_string sc ''location'' ''chip'' = Inr loc \<and>
        (lowercase loc = ''sensor'' \<or> lowercase loc = ''chip'' \<or> lowercase loc = ''absolute'') \<and>
        (if lowercase loc = ''absolute'' then get as_XYZVector sc ''offset'' = Inr off
         else \<exists>xy. get_or as_XYVector sc ''offset'' (XYVector 0 0) = Inr xy \<and>
                   off = XYZVector (x2 xy) (y2 xy) 0) \<and>
        get_or as_string sc ''material'' ''g10'' = Inr mat \<and>
        get_or as_XYVector sc ''hole_size'' (XYVector 0 0) = Inr hs \<and>
        get_or as_XYVector sc ''hole_offset'' (XYVector 0 0) = Inr ho \<and>
        m' = addSupportLayer sz t off (lowercase mat) (lowercase loc) hs ho m"
    by (rule support_layer_body_Inr)
next
  assume "support_layer_body sc m = Inr m' \<and>
    lookup sc ''location'' = None \<and> lookup sc ''offset'' = None \<and>
    lookup sc ''material'' = None \<and> lookup sc ''hole_size'' = None \<and>
    lookup sc ''hole_offset'' = None"
  then show "\<exists>t sz. m' = addSupportLayer sz t (XYZVector 0 0 0) ''g10'' ''chip'' (XYVector 0 0) (XYVector 0 0) m"
    using support_layer_body_defaults[of sc m m'] by blast
next
  assume "DetectorModel g ty reader = Inr dm"
  from constructed_layers[OF this]
  show "length (m_support_layers dm) = length (reader_getConfigurations_named reader ''support'')"
    by blast
next
  assume "DetectorModel g ty reader = Inr dm"
  from constructed_layers[OF this]
  show "\<forall>i<length (reader_getConfigurations_named reader ''support''). \<forall>m0.
         support_layer_body (reader_getConfigurations_named reader ''support'' ! i) m0
           = Inr (m0\<lparr>m_support_layers := m_support_layers m0 @ [m_support_layers dm ! i]\<rparr>)"
    by blast
qed

theorem support_sections_witness:
  "DetectorModel grid_getters ''stacked'' stacked_reader = Inr stacked_model
 \<and> length (m_support_layers stacked_model) = 2
 \<and> map layer_location (m_support_layers stacked_model) = [''sensor'', ''sensor'']
 \<and> support_layer_body (reader_getConfigurations_named stacked_reader ''support'' ! 1) stacked_model
      = Inr (stacked_model\<lparr>m_support_layers :=
               m_support_layers stacked_model @ [m_support_layers stacked_model ! 1]\<rparr>)
 \<and> (\<exists>reason. support_layer_body top_support stacked_model = Inl (InvalidValueError ''location'' reason))
 \<and> (\<exists>t sz. support_layer_body merged_support stacked_model =
       Inr (addSupportLayer sz t (XYZVector 0 0 0) ''g10'' ''chip'' (XYVector 0 0) (XYVector 0 0) stacked_model))"
proof -
  note order = support_sections[of _ _ _ _ _ _ grid_getters "''stacked''" stacked_reader stacked_model,
      THEN conjunct2, THEN conjunct2, THEN conjunct2, THEN conjunct2, THEN conjunct2, THEN conjunct2,
      THEN mp, OF stacked_constructed]
  have n: "length (reader_getConfigurations_named stacked_reader ''support'') = 2"
    by (simp add: reader_getConfigurations_named_def stacked_reader_def stacked_header_def)
  from order n have len: "length (m_support_layers stacked_model) = 2" by simp
  from order n have second: "support_layer_body (reader_getConfigurations_named stacked_reader ''support'' ! 1) stacked_model
      = Inr (stacked_model\<lparr>m_support_layers :=
               m_support_layers stacked_model @ [m_support_layers stacked_model ! 1]\<rparr>)"
    by simp
  have locs: "map layer_location (m_support_layers stacked_model) = [''sensor'', ''sensor'']"
    by (simp add: stacked_model_def)
  have bad: "\<exists>reason. support_layer_body top_support stacked_model = Inl (InvalidValueError ''location'' reason)"
    by (rule support_sections[of top_support stacked_model 1 "XYVector 2 2" "''Top''",
          THEN conjunct2, THEN conjunct2, THEN conjunct1, THEN mp])
       (simp add: top_support_def get_simps lowercase_def tolower_def)
  obtain m' where ok: "support_layer_body merged_support stacked_model = Inr m'"
    by (simp add: support_layer_body_def merged_support_def get_simps bindE_simps Let_def
        lowercase_def tolower_def)
  have absent: "lookup merged_support ''location'' = None" "lookup merged_support ''offset'' = None"
    "lookup merged_support ''material'' = None" "lookup merged_support ''hole_size'' = None"
    "lookup merged_support ''hole_offset'' = None"
    by (simp_all add: lookup_def merged_support_def)
  have "\<exists>t sz. m' = addSupportLayer sz t (XYZVector 0 0 0) ''g10'' ''chip'' (XYVector 0 0) (XYVector 0 0) stacked_model"
    by (rule support_sections[of merged_support stacked_model _ _ _ m',
          THEN conjunct2, THEN conjunct2, THEN conjunct2, THEN conjunct2, THEN conjunct2,
          THEN conjunct1, THEN mp])
       (simp add: ok absent)
  with ok have dflt: "\<exists>t sz. support_layer_body merged_support stacked_model =
       Inr (addSupportLayer sz t (XYZVector 0 0 0) ''g10'' ''chip'' (XYVector 0 0) (XYVector 0 0) stacked_model)"
    by blast
  from stacked_constructed len locs second bad dflt show ?thesis by blast
qed

text \<open>
  C7: a constructed model holds, for each side, the value read from the side's own key
  with the shared \<^verbatim>\<open>sensor_excess\<close> (itself defaulting to 0) as the default.  With
  \<^verbatim>\<open>sensor_excess = 5\<close> alone all four getters return 5; with
  \<^verbatim>\<open>sensor_excess_top = 2\<close> as well the top getter returns 2 and the others 5.
\<close>

theorem sensor_excess_defaults:
  assumes "DetectorModel g ty reader = Inr m"
  shows "(\<exists>d. get_or as_double (getHeaderConfiguration reader) ''sensor_excess'' 0 = Inr d \<and>
           get_or as_double (getHeaderConfiguration reader) ''sensor_excess_top'' d = Inr (getSensorExcessTop m) \<and>
           get_or as_double (getHeaderConfiguration reader) ''sensor_excess_bottom'' d = Inr (getSensorExcessBottom m) \<and>
           get_or as_double (getHeaderConfiguration reader) ''sensor_excess_left'' d = Inr (getSensorExcessLeft m) \<and>
           get_or as_double (getHeaderConfiguration reader) ''sensor_excess_right'' d = Inr (getSensorExcessRight m))
       \<and> (lookup (getHeaderConfiguration reader) ''sensor_excess'' = Some (VDouble 5) \<and>
          lookup (getHeaderConfiguration reader) ''sensor_excess_top'' = None \<and>
          lookup (getHeaderConfiguration reader) ''sensor_excess_bottom'' = None \<and>
          lookup (getHeaderConfiguration reader) ''sensor_excess_left'' = None \<and>
          lookup (getHeaderConfiguration reader) ''sensor_excess_right'' = None \<longrightarrow>
          getSensorExcessTop m = 5 \<and> getSensorExcessBottom m = 5 \<and>
          getSensorExcessLeft m = 5 \<and> getSensorExcessRight m = 5)
       \<and> (lookup (getHeaderConfiguration reader) ''sensor_excess'' = Some (VDouble 5) \<and>
          lookup (getHeaderConfiguration reader) ''sensor_excess_top'' = Some (VDouble 2) \<and>
          lookup (getHeaderConfiguration reader) ''sensor_excess_bottom'' = None \<and>
          lookup (getHeaderConfiguration reader) ''sensor_excess_left'' = None \<and>
          lookup (getHeaderConfiguration reader) ''sensor_excess_right'' = None \<longrightarrow>
          getSensorExcessTop m = 2 \<and> getSensorExcessBottom m = 5 \<and>
          getSensorExcessLeft m = 5 \<and> getSensorExcessRight m = 5)"
proof -
  let ?c = "getHeaderConfiguration reader"
  from constructed_excess[OF assms] obtain d where
    d: "get_or as_double ?c ''sensor_excess'' 0 = Inr d"
    and t: "get_or as_double ?c ''sensor_excess_top'' d = Inr (getSensorExcessTop m)"
    and b: "get_or as_double ?c ''sensor_excess_bottom'' d = Inr (getSensorExcessBottom m)"
    and l: "get_or as_double ?c ''sensor_excess_left'' d = Inr (getSensorExcessLeft m)"
    and r: "get_or as_double ?c ''sensor_excess_right'' d = Inr (getSensorExcessRight m)"
    by blast
  have five: "d = 5" if "lookup ?c ''sensor_excess'' = Some (VDouble 5)"
    using d get_or_present[OF that, of as_double 5 0] by simp
  have dflt: "v = d" if "get_or as_double ?c key d = Inr v" "lookup ?c key = None" for v key
    using that get_or_absent[OF that(2), of as_double d] by simp
  have two: "v = 2" if "get_or as_double ?c key d = Inr v" "lookup ?c key = Some (VDouble 2)" for v key
    using that get_or_present[OF that(2), of as_double 2 d] by simp
  show ?thesis
  proof (intro conjI impI)
    show "\<exists>d. get_or as_double ?c ''sensor_excess'' 0 = Inr d \<and>
           get_or as_double ?c ''sensor_excess_top'' d = Inr (getSensorExcessTop m) \<and>
           get_or as_double ?c ''sensor_excess_bottom'' d = Inr (getSensorExcessBottom m) \<and>
           get_or as_double ?c ''sensor_excess_left'' d = Inr (getSensorExcessLeft m) \<and>
           get_or as_double ?c ''sensor_excess_right'' d = Inr (getSensorExcessRight m)"
      by (rule constructed_excess[OF assms])
  qed (use five dflt[OF t] dflt[OF b] dflt[OF l] dflt[OF r] two[OF t] in \<open>simp_all\<close>)
qed

theorem sensor_excess_defaults_witness:
  "(\<exists>m. DetectorModel grid_getters ''excess'' (only_header excess_header) = Inr m \<and>
        getSensorExcessTop m = 5 \<and> getSensorExcessBottom m = 5 \<and>
        getSensorExcessLeft m = 5 \<and> getSensorExcessRight m = 5)
 \<and> (\<exists>m. DetectorModel grid_getters ''excess'' (only_header excess_top_header) = Inr m \<and>
        getSensorExcessTop m = 2 \<and> getSensorExcessBottom m = 5 \<and>
        getSensorExcessLeft m = 5 \<and> getSensorExcessRight m = 5)"
proof
  obtain m where m: "DetectorModel grid_getters ''excess'' (only_header excess_header) = Inr m"
    by (simp add: ctor_defs get_simps bindE_simps only_header_def excess_header_def Let_def)
  have "getSensorExcessTop m = 5 \<and> getSensorExcessBottom m = 5 \<and>
        getSensorExcessLeft m = 5 \<and> getSensorExcessRight m = 5"
    by (rule sensor_excess_defaults[OF m, THEN conjunct2, THEN conjunct1, THEN mp])
       (simp add: lookup_def getHeaderConfiguration_def only_header_def excess_header_def)
  with m show "\<exists>m. DetectorModel grid_getters ''excess'' (only_header excess_header) = Inr m \<and>
        getSensorExcessTop m = 5 \<and> getSensorExcessBottom m = 5 \<and>
        getSensorExcessLeft m = 5 \<and> getSensorExcessRight m = 5"
    by blast
next
  obtain m where m: "DetectorModel grid_getters ''excess'' (only_header excess_top_header) = Inr m"
    by (simp add: ctor_defs get_simps bindE_simps only_header_def excess_top_header_def Let_def)
  have "getSensorExcessTop m = 2 \<and> getSensorExcessBottom m = 5 \<and>
        getSensorExcessLeft m = 5 \<and> getSensorExcessRight m = 5"
    by (rule sensor_excess_defaults[OF m, THEN conjunct2, THEN conjunct2, THEN mp])
       (simp add: lookup_def getHeaderConfiguration_def only_header_def excess_top_header_def)
  with m show "\<exists>m. DetectorModel grid_getters ''excess'' (only_header excess_top_header) = Inr m \<and>
        getSensorExcessTop m = 2 \<and> getSensorExcessBottom m = 5 \<and>
        getSensorExcessLeft m = 5 \<and> getSensorExcessRight m = 5"
    by blast
qed

text \<open>
  C8: \<^verbatim>\<open>getConfigurations()\<close> returns first the header configuration with every
  unnamed section merged into it in declaration order, then every named section in
  declaration order, unchanged.  In the merged section a key that no unnamed section sets
  has the header's value, and a key has the value of the last unnamed section that sets
  it.  With two unnamed sections that set A and B and one support section the result is
  the merged section, in which A and B are set, and the support section.
\<close>

theorem getConfigurations_merged:
  "fst (getConfigurations m) =
     foldl merge (getHeaderConfiguration (m_reader m)) (unnamed_sections m) # named_sections m
   \<and> ((\<forall>c\<in>set (unnamed_sections m). lookup c k = None) \<longrightarrow>
        lookup (hd (fst (getConfigurations m))) k = lookup (getHeaderConfiguration (m_reader m)) k)
   \<and> (unnamed_sections m = earlier @ c # later \<and> lookup c k = Some v \<and>
        (\<forall>c'\<in>set later. lookup c' k = None) \<longrightarrow>
        lookup (hd (fst (getConfigurations m))) k = Some v)
   \<and> (reader_getConfigurations (m_reader m) = [u1, u2, s] \<and>
        getName u1 = [] \<and> getName u2 = [] \<and> getName s = ''support'' \<and>
        lookup u1 a \<noteq> None \<and> lookup u2 b \<noteq> None \<longrightarrow>
        length (fst (getConfigurations m)) = 2 \<and>
        lookup (fst (getConfigurations m) ! 0) a \<noteq> None \<and>
        lookup (fst (getConfigurations m) ! 0) b = lookup u2 b \<and>
        fst (getConfigurations m) ! 1 = s)"
proof -
  have eq: "fst (getConfigurations m) =
     foldl merge (getHeaderConfiguration (m_reader m)) (unnamed_sections m) # named_sections m"
    by (simp add: getConfigurations_eq unnamed_sections_def named_sections_def getName_def
        getHeaderConfiguration_def reader_getConfigurations_def)
  have absent: "(\<forall>c\<in>set (unnamed_sections m). lookup c k = None) \<longrightarrow>
        lookup (hd (fst (getConfigurations m))) k = lookup (getHeaderConfiguration (m_reader m)) k"
    unfolding eq lookup_def by (simp add: foldl_merge_absent)
  have last: "unnamed_sections m = earlier @ c # later \<and> lookup c k = Some v \<and>
        (\<forall>c'\<in>set later. lookup c' k = None) \<longrightarrow>
        lookup (hd (fst (getConfigurations m))) k = Some v"
    unfolding eq lookup_def by (auto simp: foldl_merge_absent merge_lookup)
  have ex: "reader_getConfigurations (m_reader m) = [u1, u2, s] \<and>
        getName u1 = [] \<and> getName u2 = [] \<and> getName s = ''support'' \<and>
        lookup u1 a \<noteq> None \<and> lookup u2 b \<noteq> None \<longrightarrow>
        length (fst (getConfigurations m)) = 2 \<and>
        lookup (fst (getConfigurations m) ! 0) a \<noteq> None \<and>
        lookup (fst (getConfigurations m) ! 0) b = lookup u2 b \<and>
        fst (getConfigurations m) ! 1 = s"
    unfolding eq unnamed_sections_def named_sections_def lookup_def
    by (auto simp: merge_lookup split: option.splits)
  from eq absent last ex show ?thesis by blast
qed

theorem getConfigurations_merged_witness:
  "reader_getConfigurations (m_reader merged_model) =
     [\<lparr>cfg_name = [], cfg_entries = [(''A'', VDouble 1)]\<rparr>,
      \<lparr>cfg_name = [], cfg_entries = [(''B'', VDouble 2)]\<rparr>, merged_support] \<and>
   length (fst (getConfigurations merged_model)) = 2 \<and>
   lookup (fst (getConfigurations merged_model) ! 0) ''A'' = Some (VDouble 1) \<and>
   lookup (fst (getConfigurations merged_model) ! 0) ''B'' = Some (VDouble 2) \<and>
   lookup (fst (getConfigurations merged_model) ! 0) ''pixel_size'' = Some (VXY (XYVector 1 1)) \<and>
   fst (getConfigurations merged_model) ! 1 = merged_support"
proof -
  let ?u1 = "\<lparr>cfg_name = [], cfg_entries = [(''A'', VDouble 1)]\<rparr>"
  let ?u2 = "\<lparr>cfg_name = [], cfg_entries = [(''B'', VDouble 2)]\<rparr>"
  have secs: "reader_getConfigurations (m_reader merged_model) = [?u1, ?u2, merged_support]"
    by (simp add: reader_getConfigurations_def merged_model_def merged_reader_def)
  have un: "unnamed_sections merged_model = [?u1, ?u2]"
    by (simp add: unnamed_sections_def secs getName_def merged_support_def)
  have names: "getName ?u1 = []" "getName ?u2 = []" "getName merged_support = ''support''"
    by (simp_all add: getName_def merged_support_def)
  have ex: "length (fst (getConfigurations merged_model)) = 2 \<and>
      lookup (fst (getConfigurations merged_model) ! 0) ''A'' \<noteq> None \<and>
      lookup (fst (getConfigurations merged_model) ! 0) ''B'' = lookup ?u2 ''B'' \<and>
      fst (getConfigurations merged_model) ! 1 = merged_support"
    by (rule getConfigurations_merged[of merged_model _ _ _ _ _ ?u1 ?u2 merged_support "''A''" "''B''",
          THEN conjunct2, THEN conjunct2, THEN conjunct2, THEN mp])
       (simp add: secs names lookup_def)
  have a: "lookup (hd (fst (getConfigurations merged_model))) ''A'' = Some (VDouble 1)"
    by (rule getConfigurations_merged[of merged_model "''A''" "[]" ?u1 "[?u2]" "VDouble 1",
          THEN conjunct2, THEN conjunct2, THEN conjunct1, THEN mp])
       (simp add: un lookup_def)
  have "lookup (hd (fst (getConfigurations merged_model))) ''pixel_size''
      = lookup (getHeaderConfiguration (m_reader merged_model)) ''pixel_size''"
    by (rule getConfigurations_merged[of merged_model "''pixel_size''",
          THEN conjunct2, THEN conjunct1, THEN mp])
       (simp add: un lookup_def)
  then have p: "lookup (hd (fst (getConfigurations merged_model))) ''pixel_size'' = Some (VXY (XYVector 1 1))"
    by (simp add: lookup_def getHeaderConfiguration_def merged_model_def merged_reader_def
        merged_header_def)
  from ex have "fst (getConfigurations merged_model) \<noteq> []" by auto
  then have "fst (getConfigurations merged_model) ! 0 = hd (fst (getConfigurations merged_model))"
    by (simp add: hd_conv_nth)
  with secs ex a p show ?thesis by (simp add: lookup_def)
qed

text \<open>
  C9: each of the three queries returns the object as it was, so no stored field
  changes; the layers \<^verbatim>\<open>getSupportLayers\<close> returns are the stored layers with
  nothing but the centre set, so the declared offsets are those stored; and a second call
  of a query on the object the first call left returns the same result.
\<close>

theorem queries_frame:
  "snd (getSupportLayers g m) = m \<and> snd (getSize g m) = m \<and> snd (getConfigurations m) = m \<and>
   map (\<lambda>l. l\<lparr>layer_center := XYZVector 0 0 0\<rparr>) (fst (getSupportLayers g m))
     = map (\<lambda>l. l\<lparr>layer_center := XYZVector 0 0 0\<rparr>) (m_support_layers m) \<and>
   fst (getSupportLayers g (snd (getSupportLayers g m))) = fst (getSupportLayers g m) \<and>
   fst (getSize g (snd (getSize g m))) = fst (getSize g m) \<and>
   fst (getConfigurations (snd (getConfigurations m))) = fst (getConfigurations m)"
  by (simp add: getSupportLayers_eq getSize_eq getConfigurations_eq stack_layers_fields)

text \<open>
  C10, amended: when on each axis the sensor or the chip has a size that is not negative,
  all three components of \<^verbatim>\<open>getSize()\<close> are non-negative, whatever the centre and the
  support layers are.
\<close>

theorem getSize_nonneg:
  assumes "0 \<le> X (getSensorSize g m) \<or> 0 \<le> X (getChipSize g m)"
    and "0 \<le> Y (getSensorSize g m) \<or> 0 \<le> Y (getChipSize g m)"
    and "0 \<le> Z (getSensorSize g m) \<or> 0 \<le> Z (getChipSize g m)"
  shows "0 \<le> X (fst (getSize g m)) \<and> 0 \<le> Y (fst (getSize g m)) \<and> 0 \<le> Z (fst (getSize g m))"
proof -
  let ?s = "(getSensorCenter g m, getSensorSize g m)"
  let ?c = "(getChipCenter g m, getChipSize g m)"
  have s: "?s \<in> set (elements g m)" and c: "?c \<in> set (elements g m)"
    by (simp_all add: elements_def)
  have wide: "X (box_lo b) \<le> X (box_hi b) \<longleftrightarrow> 0 \<le> X (snd b)"
    "Y (box_lo b) \<le> Y (box_hi b) \<longleftrightarrow> 0 \<le> Y (snd b)"
    "Z (box_lo b) \<le> Z (box_hi b) \<longleftrightarrow> 0 \<le> Z (snd b)" for b
    by (auto simp: box_lo_def box_hi_def vec_defs)
  from assms(1) obtain b where bx: "b \<in> set (elements g m)" "X (box_lo b) \<le> X (box_hi b)"
    using s c wide(1)[of ?s] wide(1)[of ?c] by auto
  from assms(2) obtain b' where byy: "b' \<in> set (elements g m)" "Y (box_lo b') \<le> Y (box_hi b')"
    using s c wide(2)[of ?s] wide(2)[of ?c] by auto
  from assms(3) obtain b'' where bz: "b'' \<in> set (elements g m)" "Z (box_lo b'') \<le> Z (box_hi b'')"
    using s c wide(3)[of ?s] wide(3)[of ?c] by auto
  have "0 \<le> X (fst (getSize g m))"
    unfolding getSize_eq fst_conv XYZVector.sel
    by (rule size_nonneg_axis(1)[OF corner_bounds(1)[OF bx(1)] corner_bounds(4)[OF bx(1)] bx(2)])
  moreover have "0 \<le> Y (fst (getSize g m))"
    unfolding getSize_eq fst_conv XYZVector.sel
    by (rule size_nonneg_axis(1)[OF corner_bounds(2)[OF byy(1)] corner_bounds(5)[OF byy(1)] byy(2)])
  moreover have "0 \<le> Z (fst (getSize g m))"
    unfolding getSize_eq fst_conv XYZVector.sel
    by (rule size_nonneg_axis(2)[OF corner_bounds(3)[OF bz(1)] corner_bounds(6)[OF bz(1)] bz(2)])
  ultimately show ?thesis by simp
qed

theorem getSize_nonneg_witness:
  "0 \<le> X (getSensorSize grid_getters stacked_model) \<and>
   0 \<le> Y (getSensorSize grid_getters stacked_model) \<and>
   0 \<le> Z (getSensorSize grid_getters stacked_model) \<and>
   0 \<le> X (fst (getSize grid_getters stacked_model)) \<and>
   0 \<le> Y (fst (getSize grid_getters stacked_model)) \<and>
   0 \<le> Z (fst (getSize grid_getters stacked_model))"
proof -
  have h: "0 \<le> X (getSensorSize grid_getters stacked_model)"
    "0 \<le> Y (getSensorSize grid_getters stacked_model)"
    "0 \<le> Z (getSensorSize grid_getters stacked_model)"
    by (simp_all add: getSensorSize_def grid_getters_def stacked_model_def)
  from getSize_nonneg[OF disjI1[OF h(1)] disjI1[OF h(2)] disjI1[OF h(3)]] h
  show ?thesis by simp
qed

text \<open>
  C10 as stated fails: the constructor accepts a negative pixel pitch; with the extents
  of the example getters (number of pixels times pitch) the sensor and the chip are -2
  wide around the centre -1/2, the max corner -3/2 lies below the min corner 1/2, and the
  x and y components of \<^verbatim>\<open>getSize()\<close> are -2.
\<close>

theorem getSize_nonneg_counterexample:
  "DetectorModel grid_getters ''mirrored'' mirrored_reader = Inr mirrored_model \<and>
   fst (getSize grid_getters mirrored_model) = XYZVector (- 2) (- 2) 1"
proof
  show "DetectorModel grid_getters ''mirrored'' mirrored_reader = Inr mirrored_model"
    by (simp add: ctor_defs get_simps bindE_simps mirrored_reader_def mirrored_header_def
      mirrored_model_def Let_def)
  have c: "getCenter grid_getters mirrored_model = XYZVector (- 1/2) (- 1/2) 0"
    by (simp add: grid_getters_def mirrored_model_def)
  show "fst (getSize grid_getters mirrored_model) = XYZVector (- 2) (- 2) 1"
    unfolding getSize_eq getSize_corners_eq fst_conv fold_extend_corners mirrored_elements c
    by (simp add: box_hi_def box_lo_def vec_defs DBL_MAX_def DBL_LOWEST_def)
qed

end
